theory Spec2Isabelle
  imports Main
begin

section \<open>The delta manager of the container loader\<close>

text \<open>
  A shallow embedding of \<^verbatim>\<open>packages/loader/container-loader/src/deltaManager.ts\<close>.
  The class \<^verbatim>\<open>DeltaManager\<close> becomes a record of its private fields; every method
  becomes a function from the record to the updated record. The manager runs on one
  event loop: each callback (a connection event, a resolved promise, a timer) is one
  \<^emph>\<open>event\<close> of the model and runs to completion before the next one. Calls to the
  collaborators (logger, handler strategy, storage, connection) are appended to the
  field \<open>trace\<close>, in the order the code makes them. Time stamps (\<^verbatim>\<open>Date.now()\<close>) are
  left out of the traces of a message: nothing below reads them. The worker of the
  outbound queue (which sends an envelope over the connection, splitting off oversized
  contents) and the getter \<^verbatim>\<open>maxMessageSize\<close> are not modelled: the properties below
  concern what is pushed onto that queue, not what leaves it.
\<close>

subsection \<open>Messages\<close>

text \<open>
  \<^verbatim>\<open>MessageType\<close> is declared in \<^verbatim>\<open>@prague/container-definitions\<close>. The manager names
  \<^verbatim>\<open>Operation\<close>, \<^verbatim>\<open>Propose\<close>, \<^verbatim>\<open>NoOp\<close> and \<^verbatim>\<open>ClientLeave\<close>; the other members are
  kept apart by whether they are system types.
\<close>

datatype MessageType =
  Operation | Propose | NoOp | ClientJoin | ClientLeave
  | OtherSystemType string | OtherType string

text \<open>
  Modelled from the spec: \<^verbatim>\<open>isSystemType\<close> is imported from \<^verbatim>\<open>@prague/utils\<close>, which is
  not among the sources. The specification lists the message types as ``Operation,
  Propose, NoOp, ClientJoin, ClientLeave, plus other system types identified by an
  isSystemType predicate''. No proof below unfolds this definition except to evaluate a
  concrete message.
\<close>

fun isSystemType :: "MessageType \<Rightarrow> bool" where
  "isSystemType ClientJoin = True"
| "isSystemType ClientLeave = True"
| "isSystemType (OtherSystemType _) = True"
| "isSystemType _ = False"

text \<open>
  The payload of a message: \<^verbatim>\<open>undefined\<close>, \<^verbatim>\<open>null\<close>, a string, or a decoded (structured)
  value, here named by a string.
\<close>

datatype contents = Undefined | Null | Text string | Structured string

record ITrace =
  action :: string
  service :: string

record ISequencedDocumentMessage =
  sequenceNumber :: int
  minimumSequenceNumber :: int
  clientId :: string
  msgClientSequenceNumber :: int
  mtype :: MessageType
  contents :: contents
  traces :: "ITrace list"

text \<open>
  An outbound \<^verbatim>\<open>IDocumentMessage\<close>; \<open>data\<close> is the extra field of an
  \<^verbatim>\<open>IDocumentSystemMessage\<close> (\<open>None\<close>: the message has no such field).
\<close>

record IDocumentMessage =
  docClientSequenceNumber :: int
  docContents :: contents
  docReferenceSequenceNumber :: int
  docTraces :: "ITrace list"
  docType :: MessageType
  data :: "contents option"

record IContentMessage =
  cClientId :: string
  cClientSequenceNumber :: int
  cContents :: contents

record ISignalMessage =
  sigClientId :: string
  content :: contents

subsection \<open>Constants\<close>

definition MaxReconnectDelay :: int where "MaxReconnectDelay = 8000"
definition InitialReconnectDelay :: int where "InitialReconnectDelay = 1000"
definition MissingFetchDelay :: int where "MissingFetchDelay = 100"
definition MaxFetchDelay :: int where "MaxFetchDelay = 10000"
definition MaxBatchDeltas :: int where "MaxBatchDeltas = 2000"
definition ImmediateNoOpResponse :: contents where "ImmediateNoOpResponse = Text []"
definition DefaultContentBufferSize :: nat where "DefaultContentBufferSize = 10"

text \<open>
  Modelled from the spec: the constant \<^verbatim>\<open>Browser\<close> of \<^verbatim>\<open>@prague/container-definitions\<close>
  (``\<^verbatim>\<open>Client.type\<close> defaults to a Browser category when absent''); only its identity
  matters.
\<close>

definition Browser :: string where "Browser = ''browser''"

subsection \<open>The delta queue\<close>

text \<open>
  Modelled from the spec: \<^verbatim>\<open>./deltaQueue\<close> is not among the sources. Section 4.1: a FIFO
  queue with the state (paused, systemPaused, draining); it ``drains only when both
  paused and systemPaused are false''; \<^verbatim>\<open>clear()\<close> ``discards queued items but must not
  interrupt an in-flight invocation''; \<^verbatim>\<open>resume\<close>/\<^verbatim>\<open>systemResume\<close> ``clear only their
  corresponding flag''; on a worker error the queue ``emits "error" and stops
  draining''; ``exactly one invocation of W is in flight at a time''. The worker is
  handed the head of the queue by a separate event. \<open>busy\<close> marks an invocation that has
  not called back (for the inbound queue the manager's \<open>inboundStage\<close> says so, with the
  message).
\<close>

record 'a DeltaQueue =
  items :: "'a list"
  userPaused :: bool
  sysPaused :: bool
  stopped :: bool
  busy :: bool

definition newQueue :: "'a DeltaQueue" where
  "newQueue = \<lparr>items = [], userPaused = False, sysPaused = False, stopped = False,
                busy = False\<rparr>"

definition paused :: "'a DeltaQueue \<Rightarrow> bool" where
  "paused q = (userPaused q \<or> sysPaused q)"

definition push :: "'a DeltaQueue \<Rightarrow> 'a \<Rightarrow> 'a DeltaQueue" where
  "push q x = q\<lparr>items := items q @ [x]\<rparr>"

definition clear :: "'a DeltaQueue \<Rightarrow> 'a DeltaQueue" where
  "clear q = q\<lparr>items := []\<rparr>"

definition pause :: "'a DeltaQueue \<Rightarrow> 'a DeltaQueue" where
  "pause q = q\<lparr>userPaused := True\<rparr>"

definition resume :: "'a DeltaQueue \<Rightarrow> 'a DeltaQueue" where
  "resume q = q\<lparr>userPaused := False\<rparr>"

definition systemPause :: "'a DeltaQueue \<Rightarrow> 'a DeltaQueue" where
  "systemPause q = q\<lparr>sysPaused := True\<rparr>"

definition systemResume :: "'a DeltaQueue \<Rightarrow> 'a DeltaQueue" where
  "systemResume q = q\<lparr>sysPaused := False\<rparr>"

text \<open>The queue hands an item to its worker only in this situation.\<close>

definition drains :: "'a DeltaQueue \<Rightarrow> bool" where
  "drains q = (\<not> paused q \<and> \<not> stopped q \<and> \<not> busy q \<and> items q \<noteq> [])"

subsection \<open>The content cache\<close>

text \<open>
  Modelled from the spec: \<^verbatim>\<open>./contentCache\<close> is not among the sources. Section 4.2: ``a
  bounded queue of content messages with per-client peek'', with \<^verbatim>\<open>set\<close>, \<^verbatim>\<open>peek\<close>,
  \<^verbatim>\<open>get\<close> (removing); ``inserts beyond capacity evict oldest''; ``every set fires
  "content" with the inserted clientId'' (the firing is in \<open>contentCache_set\<close> below).
\<close>

type_synonym ContentCache = "string \<Rightarrow> IContentMessage list"

definition cache_set :: "nat \<Rightarrow> IContentMessage \<Rightarrow> ContentCache \<Rightarrow> ContentCache" where
  "cache_set capacity c m =
     (let q = m (cClientId c) @ [c]
      in m(cClientId c := (if length q > capacity then tl q else q)))"

definition cache_peek :: "string \<Rightarrow> ContentCache \<Rightarrow> IContentMessage option" where
  "cache_peek cid m = (case m cid of [] \<Rightarrow> None | c # _ \<Rightarrow> Some c)"

definition cache_get :: "string \<Rightarrow> ContentCache \<Rightarrow> IContentMessage option \<times> ContentCache" where
  "cache_get cid m = (case m cid of [] \<Rightarrow> (None, m) | c # cs \<Rightarrow> (Some c, m(cid := cs)))"

subsection \<open>Observable calls\<close>

datatype error = TypeError | AssertionError | SyntaxError

text \<open>
  The calls the manager makes to its collaborators and the events it emits;
  \<open>Uncaught e\<close> is an exception that leaves the manager's code uncaught.
\<close>

datatype effect =
    LogDuplicateMessage int int
  | LogAlreadyFetching int string
  | LogCatchUp nat nat string
  | LogGetDeltasClosedConnection
  | LogGetDeltasStart int string "int option"
  | LogGetDeltasEnd int nat nat
  | LogGetDeltasError int int nat
  | ReportProgress int nat nat int nat bool
  | LogConnectionFailure int
  | StorageGet int int
  | Sleep int
  | SetReconnectTimeout int
  | DeltaConnectionConnect
  | ConnectionClose
  | ConnectionSubmitSignal contents
  | RemoveAllListeners
  | HandlerPrepare ISequencedDocumentMessage
  | HandlerProcess ISequencedDocumentMessage
  | HandlerPostProcess ISequencedDocumentMessage
  | HandlerProcessSignal ISignalMessage
  | EmitConnect
  | EmitDisconnect bool
  | EmitError
  | Uncaught error
  | EmitProcessTime
  | EmitPong

subsection \<open>Asynchronous work in flight\<close>

text \<open>
  A call of \<^verbatim>\<open>getDeltas\<close> that has not settled: who awaits it, and the local variables
  of its loop. \<open>returnedAtEntry\<close> holds for a call that found the manager closed: its
  promise is already resolved with \<^verbatim>\<open>[]\<close>.
\<close>

datatype purpose =
    ForCatchUp string
  | ForWaitForContent ISequencedDocumentMessage
  | ForFetchContent ISequencedDocumentMessage
  | ForCaller

record getDeltasCall =
  purpose :: purpose
  toSeq :: "int option"
  retry :: nat
  fromSeq :: int
  allDeltas :: "ISequencedDocumentMessage list"
  returnedAtEntry :: bool

text \<open>
  The message the inbound worker is busy with, and what it awaits. \<open>Abandoned\<close>: the
  worker raised before it could call back, and never will.
\<close>

datatype stage =
    AwaitContent ISequencedDocumentMessage
  | AwaitPrepare ISequencedDocumentMessage
  | AwaitPostProcess ISequencedDocumentMessage
  | Abandoned ISequencedDocumentMessage

record DeltaConnection =
  details_clientId :: string

subsection \<open>The state of the manager\<close>

record DeltaManager =
  clientType :: string
  pending :: "ISequencedDocumentMessage list"
  fetching :: bool
  updateHasBeenRequested :: bool
  updateSequenceNumberTimer :: "MessageType option"
  readonly :: bool
  minSequenceNumber :: int
  lastQueuedSequenceNumber :: "int option"
  largestSequenceNumber :: "int option"
  baseSequenceNumber :: int
  inbound :: "ISequencedDocumentMessage DeltaQueue"
  inboundSignal :: "ISignalMessage DeltaQueue"
  outbound :: "IDocumentMessage DeltaQueue"
  connecting :: bool
  connection :: "DeltaConnection option"
  clientSequenceNumber :: int
  closed :: bool
  handler :: bool
  contentCache :: ContentCache
  lateContentHandlers :: "(string \<times> int \<times> int) list"
  getDeltasCalls :: "getDeltasCall list"
  inboundStage :: "stage option"
  inboundResumeOnce :: "(ISequencedDocumentMessage list \<times> IContentMessage list) list"
  signalResumeOnce :: "ISignalMessage list list"
  connectAttempts :: "int list"
  reconnectTimers :: "int list"
  trace :: "effect list"

definition observe :: "effect \<Rightarrow> DeltaManager \<Rightarrow> DeltaManager" where
  "observe e s = s\<lparr>trace := trace s @ [e]\<rparr>"

text \<open>
  The constructor. \<open>client\<close> is \<open>None\<close> when there is no client or its type is absent.
  The three queues are created and paused (``Require the user to start the
  processing'').
\<close>

definition DeltaManager_new :: "string option \<Rightarrow> DeltaManager" where
  "DeltaManager_new client =
     \<lparr>clientType = (case client of None \<Rightarrow> Browser
                     | Some t \<Rightarrow> if t = [] then Browser else t),
      pending = [], fetching = False,
      updateHasBeenRequested = False, updateSequenceNumberTimer = None,
      readonly = True, minSequenceNumber = 0,
      lastQueuedSequenceNumber = None, largestSequenceNumber = None,
      baseSequenceNumber = 0,
      inbound = pause newQueue, inboundSignal = pause newQueue, outbound = pause newQueue,
      connecting = False, connection = None, clientSequenceNumber = 0,
      closed = False, handler = False,
      contentCache = (\<lambda>_. []), lateContentHandlers = [],
      getDeltasCalls = [], inboundStage = None,
      inboundResumeOnce = [], signalResumeOnce = [],
      connectAttempts = [], reconnectTimers = [],
      trace = []\<rparr>"

subsection \<open>Submitting\<close>

definition stopSequenceNumberUpdate :: "DeltaManager \<Rightarrow> DeltaManager" where
  "stopSequenceNumberUpdate s =
     s\<lparr>updateHasBeenRequested := False, updateSequenceNumberTimer := None\<rparr>"

definition createOutboundMessage :: "MessageType \<Rightarrow> IDocumentMessage \<Rightarrow> IDocumentMessage" where
  "createOutboundMessage ty coreMessage =
     (if isSystemType ty
      then coreMessage\<lparr>docContents := Null, data := Some (docContents coreMessage)\<rparr>
      else coreMessage)"

text \<open>\<^verbatim>\<open>submit(type, contents)\<close> returns the client sequence number and the new state.\<close>

definition submit :: "MessageType \<Rightarrow> contents \<Rightarrow> DeltaManager \<Rightarrow> int \<times> DeltaManager" where
  "submit ty c s =
     (let n = clientSequenceNumber s + 1;
          coreMessage = \<lparr>docClientSequenceNumber = n, docContents = c,
                         docReferenceSequenceNumber = baseSequenceNumber s,
                         docTraces = [\<lparr>action = ''start'', service = clientType s\<rparr>],
                         docType = ty, data = None\<rparr>;
          message = createOutboundMessage ty coreMessage;
          s1 = stopSequenceNumberUpdate (s\<lparr>clientSequenceNumber := n, readonly := False\<rparr>)
      in (docClientSequenceNumber message, s1\<lparr>outbound := push (outbound s1) message\<rparr>))"

text \<open>\<^verbatim>\<open>this.connection!.submitSignal(content)\<close>: without a connection the call raises.\<close>

definition submitSignal :: "contents \<Rightarrow> DeltaManager \<Rightarrow> error + DeltaManager" where
  "submitSignal c s =
     (case connection s of
        None \<Rightarrow> Inl TypeError
      | Some _ \<Rightarrow> Inr (observe (ConnectionSubmitSignal c) s))"

definition enableReadonlyMode :: "DeltaManager \<Rightarrow> DeltaManager" where
  "enableReadonlyMode s = (stopSequenceNumberUpdate s)\<lparr>readonly := True\<rparr>"

definition disableReadonlyMode :: "DeltaManager \<Rightarrow> DeltaManager" where
  "disableReadonlyMode s = s\<lparr>readonly := False\<rparr>"

definition close :: "DeltaManager \<Rightarrow> DeltaManager" where
  "close s =
     (let s1 = stopSequenceNumberUpdate (s\<lparr>closed := True\<rparr>);
          s2 = (case connection s1 of None \<Rightarrow> s1 | Some _ \<Rightarrow> observe ConnectionClose s1);
          s3 = s2\<lparr>inbound := clear (inbound s2)\<rparr>;
          s4 = s3\<lparr>outbound := clear (outbound s3)\<rparr>;
          s5 = s4\<lparr>inboundSignal := clear (inboundSignal s4)\<rparr>
      in observe RemoveAllListeners s5)"

subsection \<open>Fetching from delta storage\<close>

text \<open>
  What the environment answers to one round of the loop of \<^verbatim>\<open>getDeltas\<close>:
  \<^item> \<open>DeltaStorageRejects\<close>: \<^verbatim>\<open>await this.deltaStorageP\<close> raises (outside the \<^verbatim>\<open>try\<close>);
  \<^item> \<open>NoDeltaStorage\<close>: \<^verbatim>\<open>deltaStorageP\<close> is still \<^verbatim>\<open>undefined\<close>, so \<^verbatim>\<open>deltaStorage.get\<close>
    raises inside the \<^verbatim>\<open>try\<close> before any request is made;
  \<^item> \<open>GetThrows\<close>: the request \<^verbatim>\<open>deltaStorage.get(from, fetchTo)\<close> raises;
  \<^item> \<open>GetReturns ds\<close>: the request returns the messages \<open>ds\<close>.
\<close>

datatype storage_answer =
  DeltaStorageRejects | NoDeltaStorage | GetThrows | GetReturns "ISequencedDocumentMessage list"

datatype round_result =
    Returns "ISequencedDocumentMessage list"
  | Rejects
  | Continues getDeltasCall

text \<open>The end of a round that did not return: the retry counter and the delay.\<close>

definition nextRetry :: "nat \<Rightarrow> nat \<Rightarrow> nat" where
  "nextRetry deltasRetrievedLast r = (if deltasRetrievedLast = 0 then r + 1 else 0)"

definition fetchDelay :: "nat \<Rightarrow> int" where
  "fetchDelay r = min MaxFetchDelay (if r \<noteq> 0 then MissingFetchDelay * 2 ^ r else 0)"

definition endOfRound :: "bool \<Rightarrow> nat \<Rightarrow> getDeltasCall \<Rightarrow> round_result \<times> effect list" where
  "endOfRound success deltasRetrievedLast c =
     (let r = nextRetry deltasRetrievedLast (retry c);
          delay = fetchDelay r
      in (Continues (c\<lparr>retry := r\<rparr>),
          [ReportProgress delay deltasRetrievedLast (length (allDeltas c)) (fromSeq c) r success,
           Sleep delay]))"

text \<open>One round of the \<^verbatim>\<open>while (true)\<close> loop of \<^verbatim>\<open>getDeltas\<close>, with the calls it makes.\<close>

definition getDeltas_round :: "storage_answer \<Rightarrow> getDeltasCall \<Rightarrow> round_result \<times> effect list" where
  "getDeltas_round a c =
     (let maxFetchTo = fromSeq c + MaxBatchDeltas;
          fetchTo = (case toSeq c of None \<Rightarrow> maxFetchTo | Some t \<Rightarrow> min maxFetchTo t)
      in case a of
           DeltaStorageRejects \<Rightarrow> (Rejects, [])
         | NoDeltaStorage \<Rightarrow>
             (let (r, es) = endOfRound False 0 c
              in (r, LogGetDeltasError fetchTo (fromSeq c) (retry c + 1) # es))
         | GetThrows \<Rightarrow>
             (let (r, es) = endOfRound False 0 c
              in (r, StorageGet (fromSeq c) fetchTo
                     # LogGetDeltasError fetchTo (fromSeq c) (retry c + 1) # es))
         | GetReturns deltas \<Rightarrow>
             (let all = allDeltas c @ deltas;
                  deltasRetrievedLast = length deltas;
                  lastFetch = (if deltasRetrievedLast > 0 then sequenceNumber (last deltas)
                               else fromSeq c)
              in if (toSeq c = None \<and> maxFetchTo \<noteq> lastFetch + 1) \<or> toSeq c = Some (lastFetch + 1)
                 then (Returns all,
                       [StorageGet (fromSeq c) fetchTo,
                        LogGetDeltasEnd lastFetch (length all) (retry c)])
                 else (let (r, es) = endOfRound True deltasRetrievedLast
                                       (c\<lparr>allDeltas := all, fromSeq := lastFetch\<rparr>)
                       in (r, StorageGet (fromSeq c) fetchTo # es))))"

text \<open>
  The whole loop against a script of answers. The loop has no bound of its own: when
  the script is used up the call is still waiting (\<open>None\<close>).
\<close>

fun getDeltas_loop ::
  "storage_answer list \<Rightarrow> getDeltasCall \<Rightarrow> round_result option \<times> effect list" where
  "getDeltas_loop [] c = (None, [])"
| "getDeltas_loop (a # as) c =
     (case getDeltas_round a c of
        (Continues c', es) \<Rightarrow> (let (r, es') = getDeltas_loop as c' in (r, es @ es'))
      | (r, es) \<Rightarrow> (Some r, es))"

text \<open>
  \<^verbatim>\<open>getDeltas(reason, fromInitial, to)\<close> up to its first \<^verbatim>\<open>await\<close>: a closed manager logs
  and returns \<^verbatim>\<open>[]\<close>; otherwise the loop starts with \<^verbatim>\<open>retry = 0\<close>.
\<close>

definition newCall :: "purpose \<Rightarrow> int \<Rightarrow> int option \<Rightarrow> bool \<Rightarrow> getDeltasCall" where
  "newCall p fromInitial t atEntry =
     \<lparr>purpose = p, toSeq = t, retry = 0, fromSeq = fromInitial, allDeltas = [],
      returnedAtEntry = atEntry\<rparr>"

definition getDeltas :: "purpose \<Rightarrow> string \<Rightarrow> int \<Rightarrow> int option \<Rightarrow> DeltaManager \<Rightarrow> DeltaManager" where
  "getDeltas p reason fromInitial t s =
     (if closed s
      then (observe LogGetDeltasClosedConnection s)
             \<lparr>getDeltasCalls := getDeltasCalls s @ [newCall p fromInitial t True]\<rparr>
      else (observe (LogGetDeltasStart fromInitial reason t) s)
             \<lparr>getDeltasCalls := getDeltasCalls s @ [newCall p fromInitial t False]\<rparr>)"

subsection \<open>Admission to the inbound queue\<close>

definition fetchMissingDeltas :: "string \<Rightarrow> int \<Rightarrow> int option \<Rightarrow> DeltaManager \<Rightarrow> DeltaManager" where
  "fetchMissingDeltas reason fromN t s =
     (if fetching s then observe (LogAlreadyFetching fromN reason) s
      else getDeltas (ForCatchUp reason) reason fromN t (s\<lparr>fetching := True\<rparr>))"

definition handleOutOfOrderMessage :: "ISequencedDocumentMessage \<Rightarrow> DeltaManager \<Rightarrow> DeltaManager" where
  "handleOutOfOrderMessage message s =
     (case lastQueuedSequenceNumber s of
        None \<Rightarrow> s\<lparr>pending := pending s @ [message]\<rparr>
      | Some lastQueued \<Rightarrow>
          if sequenceNumber message \<le> lastQueued
          then observe (LogDuplicateMessage lastQueued (sequenceNumber message)) s
          else fetchMissingDeltas ''HandleOutOfOrderMessage'' lastQueued
                 (Some (sequenceNumber message)) (s\<lparr>pending := pending s @ [message]\<rparr>))"

text \<open>The body of the loop of \<^verbatim>\<open>enqueueMessages\<close>, for one message.\<close>

definition enqueueMessage :: "ISequencedDocumentMessage \<Rightarrow> DeltaManager \<Rightarrow> DeltaManager" where
  "enqueueMessage message s =
     (let s1 = (case largestSequenceNumber s of
                  None \<Rightarrow> s
                | Some l \<Rightarrow> s\<lparr>largestSequenceNumber := Some (max l (sequenceNumber message))\<rparr>);
          admitted = s1\<lparr>lastQueuedSequenceNumber := Some (sequenceNumber message),
                        inbound := push (inbound s1) message\<rparr>
      in case lastQueuedSequenceNumber s1 of
           None \<Rightarrow> admitted
         | Some lastQueued \<Rightarrow>
             if sequenceNumber message \<noteq> lastQueued + 1
             then handleOutOfOrderMessage message s1
             else admitted)"

definition enqueueMessages :: "ISequencedDocumentMessage list \<Rightarrow> DeltaManager \<Rightarrow> DeltaManager" where
  "enqueueMessages messages s = fold enqueueMessage messages s"

definition catchUp :: "string \<Rightarrow> ISequencedDocumentMessage list \<Rightarrow> DeltaManager \<Rightarrow> DeltaManager" where
  "catchUp reason messages s =
     (let s1 = enqueueMessages messages
                 (observe (LogCatchUp (length messages) (length (pending s)) reason) s);
          pendingSorted = sort_key sequenceNumber (pending s1)
      in enqueueMessages pendingSorted (s1\<lparr>pending := []\<rparr>))"

subsection \<open>The acknowledgement of the reference sequence number\<close>

text \<open>
  The timer of \<^verbatim>\<open>updateSequenceNumber\<close> is \<open>Some ty\<close> while it is armed, \<open>ty\<close> being the
  message type its callback has captured; a cleared timer never fires.
\<close>

definition updateSequenceNumber :: "MessageType \<Rightarrow> DeltaManager \<Rightarrow> DeltaManager" where
  "updateSequenceNumber ty s =
     (if readonly s then s
      else if ty = Propose then snd (submit NoOp ImmediateNoOpResponse s)
      else if updateSequenceNumberTimer s \<noteq> None then s\<lparr>updateHasBeenRequested := True\<rparr>
      else s\<lparr>updateSequenceNumberTimer := Some ty\<rparr>)"

definition ackTimerFired :: "DeltaManager \<Rightarrow> DeltaManager" where
  "ackTimerFired s =
     (case updateSequenceNumberTimer s of
        None \<Rightarrow> s
      | Some ty \<Rightarrow>
          (let s1 = s\<lparr>updateSequenceNumberTimer := None\<rparr>
           in if \<not> updateHasBeenRequested s1 then snd (submit NoOp Null s1)
              else updateSequenceNumber ty (s1\<lparr>updateHasBeenRequested := False\<rparr>)))"

subsection \<open>The inbound worker\<close>

text \<open>The worker's callback called with an error: the queue emits it and stops.\<close>

definition inboundFailed :: "DeltaManager \<Rightarrow> DeltaManager" where
  "inboundFailed s =
     observe EmitError (s\<lparr>inbound := (inbound s)\<lparr>stopped := True\<rparr>, inboundStage := None\<rparr>)"

text \<open>
  An exception raised while the worker runs synchronously (a failed \<^verbatim>\<open>assert\<close>,
  \<^verbatim>\<open>JSON.parse\<close>, a missing handler) is caught nowhere in the manager: it leaves the worker,
  or the promise callback that called \<^verbatim>\<open>mergeAndProcess\<close>, before any callback is attached.
  The worker's callback is never called and no "error" is emitted.
\<close>

definition escaped :: "error \<Rightarrow> ISequencedDocumentMessage \<Rightarrow> DeltaManager \<Rightarrow> DeltaManager" where
  "escaped e op s = observe (Uncaught e) (s\<lparr>inboundStage := Some (Abandoned op)\<rparr>)"

text \<open>
  \<^verbatim>\<open>JSON.parse\<close> is a parameter: \<open>None\<close> where it raises. A non-empty string payload is
  decoded unless the message is a \<^verbatim>\<open>ClientLeave\<close>.
\<close>

definition decodeContents ::
  "(string \<Rightarrow> contents option) \<Rightarrow> ISequencedDocumentMessage \<Rightarrow> ISequencedDocumentMessage option" where
  "decodeContents JSON_parse message =
     (case contents message of
        Text t \<Rightarrow>
          if t \<noteq> [] \<and> mtype message \<noteq> ClientLeave
          then map_option (\<lambda>v. message\<lparr>contents := v\<rparr>) (JSON_parse t)
          else Some message
      | _ \<Rightarrow> Some message)"

text \<open>\<^verbatim>\<open>processMessage\<close> up to the call of \<^verbatim>\<open>handler.prepare\<close>.\<close>

definition processMessage ::
  "(string \<Rightarrow> contents option) \<Rightarrow> ISequencedDocumentMessage \<Rightarrow> DeltaManager \<Rightarrow> error + DeltaManager" where
  "processMessage JSON_parse message s =
     (if sequenceNumber message \<noteq> baseSequenceNumber s + 1 then Inl AssertionError
      else case decodeContents JSON_parse message of
             None \<Rightarrow> Inl SyntaxError
           | Some message' \<Rightarrow>
               if \<not> handler s then Inl TypeError
               else Inr ((observe (HandlerPrepare message') s)
                           \<lparr>inboundStage := Some (AwaitPrepare message')\<rparr>))"

text \<open>The continuation of \<^verbatim>\<open>processMessage\<close> once \<^verbatim>\<open>handler.prepare\<close> has resolved.\<close>

definition addEndTrace :: "string \<Rightarrow> ISequencedDocumentMessage \<Rightarrow> ISequencedDocumentMessage" where
  "addEndTrace ct message =
     (if traces message \<noteq> []
      then message\<lparr>traces := traces message @ [\<lparr>action = ''end'', service = ct\<rparr>]\<rparr>
      else message)"

definition processMessage_prepared :: "ISequencedDocumentMessage \<Rightarrow> DeltaManager \<Rightarrow> DeltaManager" where
  "processMessage_prepared message s =
     (let message' = addEndTrace (clientType s) message;
          s1 = s\<lparr>minSequenceNumber := minimumSequenceNumber message',
                 baseSequenceNumber := sequenceNumber message'\<rparr>;
          s2 = observe (HandlerProcess message') s1;
          s3 = (if mtype message' = Operation \<or> mtype message' = Propose
                then updateSequenceNumber (mtype message') s2 else s2);
          s4 = observe EmitProcessTime s3
      in (observe (HandlerPostProcess message') s4)
           \<lparr>inboundStage := Some (AwaitPostProcess message')\<rparr>)"

definition processInboundOp ::
  "(string \<Rightarrow> contents option) \<Rightarrow> ISequencedDocumentMessage \<Rightarrow> DeltaManager \<Rightarrow> DeltaManager" where
  "processInboundOp JSON_parse op s =
     (case processMessage JSON_parse op s of Inl e \<Rightarrow> escaped e op s | Inr s' \<Rightarrow> s')"

definition mergeAndProcess ::
  "(string \<Rightarrow> contents option) \<Rightarrow> ISequencedDocumentMessage \<Rightarrow> IContentMessage
     \<Rightarrow> DeltaManager \<Rightarrow> DeltaManager" where
  "mergeAndProcess JSON_parse message contentOp s =
     processInboundOp JSON_parse (message\<lparr>contents := cContents contentOp\<rparr>) s"

subsection \<open>Content reassembly\<close>

text \<open>
  A registered \<^verbatim>\<open>lateContentHandler\<close> is named by the arguments of the call of
  \<^verbatim>\<open>waitForContent\<close> that made it. When it finds its content it removes itself and
  takes the content out of the cache; what it returns goes to the event emitter.
\<close>

definition lateContentHandler :: "string \<Rightarrow> string \<times> int \<times> int \<Rightarrow> DeltaManager \<Rightarrow> DeltaManager" where
  "lateContentHandler clId h s =
     (case h of (cid, clientSeqNumber, seqNumber) \<Rightarrow>
        if cid = clId
        then (case cache_peek clId (contentCache s) of
                None \<Rightarrow> s
              | Some lateContent \<Rightarrow>
                  if cClientSequenceNumber lateContent = clientSeqNumber
                  then s\<lparr>lateContentHandlers := remove1 h (lateContentHandlers s),
                         contentCache := snd (cache_get cid (contentCache s))\<rparr>
                  else s)
        else s)"

text \<open>\<^verbatim>\<open>contentCache.set(content)\<close>, with the "content" event it fires.\<close>

definition contentCache_set :: "IContentMessage \<Rightarrow> DeltaManager \<Rightarrow> DeltaManager" where
  "contentCache_set c s =
     (let s1 = s\<lparr>contentCache := cache_set DefaultContentBufferSize c (contentCache s)\<rparr>
      in fold (lateContentHandler (cClientId c)) (lateContentHandlers s1) s1)"

definition fetchContent :: "purpose \<Rightarrow> ISequencedDocumentMessage \<Rightarrow> DeltaManager \<Rightarrow> DeltaManager" where
  "fetchContent p op s =
     getDeltas p ''fetchContent'' (sequenceNumber op) (Some (sequenceNumber op)) s"

text \<open>What \<^verbatim>\<open>fetchContent\<close> makes of the messages \<^verbatim>\<open>getDeltas\<close> resolved with.\<close>

definition fetchContent_result ::
  "ISequencedDocumentMessage \<Rightarrow> ISequencedDocumentMessage list \<Rightarrow> error + IContentMessage" where
  "fetchContent_result op messages =
     (case messages of
        [] \<Rightarrow> Inl AssertionError
      | message # _ \<Rightarrow>
          if clientId message \<noteq> clientId op then Inl AssertionError
          else if msgClientSequenceNumber message \<noteq> msgClientSequenceNumber op
          then Inl AssertionError
          else Inr \<lparr>cClientId = clientId message,
                    cClientSequenceNumber = msgClientSequenceNumber message,
                    cContents = contents message\<rparr>)"

definition waitForContent :: "ISequencedDocumentMessage \<Rightarrow> DeltaManager \<Rightarrow> DeltaManager" where
  "waitForContent op s =
     fetchContent (ForWaitForContent op) op
       (s\<lparr>lateContentHandlers := lateContentHandlers s
             @ [(clientId op, msgClientSequenceNumber op, sequenceNumber op)]\<rparr>)"

text \<open>
  The loop of case C: contents are taken out of the cache until one is not older than
  the envelope, or the cache has none left for the client.
\<close>

fun drainStale :: "int \<Rightarrow> IContentMessage list \<Rightarrow> IContentMessage option \<times> IContentMessage list" where
  "drainStale n [] = (None, [])"
| "drainStale n (c # cs) =
     (if cClientSequenceNumber c < n then drainStale n cs else (Some c, cs))"

definition handleOpContent ::
  "(string \<Rightarrow> contents option) \<Rightarrow> ISequencedDocumentMessage \<Rightarrow> DeltaManager \<Rightarrow> DeltaManager" where
  "handleOpContent JSON_parse op s =
     (case cache_peek (clientId op) (contentCache s) of
        None \<Rightarrow> waitForContent op (s\<lparr>inboundStage := Some (AwaitContent op)\<rparr>)
      | Some opContent \<Rightarrow>
          if cClientSequenceNumber opContent > msgClientSequenceNumber op
          then fetchContent (ForFetchContent op) op (s\<lparr>inboundStage := Some (AwaitContent op)\<rparr>)
          else if cClientSequenceNumber opContent < msgClientSequenceNumber op
          then (case drainStale (msgClientSequenceNumber op) (contentCache s (clientId op)) of
                  (nextContent, rest) \<Rightarrow>
                    (let s1 = s\<lparr>contentCache := (contentCache s)(clientId op := rest)\<rparr>
                     in case nextContent of
                          None \<Rightarrow> escaped AssertionError op s1
                        | Some c \<Rightarrow>
                            if msgClientSequenceNumber op \<noteq> cClientSequenceNumber c
                            then escaped AssertionError op s1
                            else mergeAndProcess JSON_parse op c s1))
          else (case cache_get (clientId op) (contentCache s) of
                  (None, m) \<Rightarrow> escaped TypeError op s
                | (Some c, m) \<Rightarrow> mergeAndProcess JSON_parse op c (s\<lparr>contentCache := m\<rparr>)))"

subsection \<open>Settling a call of getDeltas\<close>

definition removeAt :: "nat \<Rightarrow> 'a list \<Rightarrow> 'a list" where
  "removeAt i xs = take i xs @ drop (Suc i) xs"

text \<open>
  The callbacks on the promise of \<^verbatim>\<open>getDeltas\<close>. \<^verbatim>\<open>fetchMissingDeltas\<close> attaches a
  callback for the resolved promise only.
\<close>

definition getDeltas_resolved ::
  "(string \<Rightarrow> contents option) \<Rightarrow> purpose \<Rightarrow> ISequencedDocumentMessage list
     \<Rightarrow> DeltaManager \<Rightarrow> DeltaManager" where
  "getDeltas_resolved JSON_parse p messages s =
     (case p of
        ForCatchUp reason \<Rightarrow> catchUp reason messages (s\<lparr>fetching := False\<rparr>)
      | ForWaitForContent op \<Rightarrow>
          (case fetchContent_result op messages of
             Inl e \<Rightarrow> inboundFailed s
           | Inr c \<Rightarrow>
               mergeAndProcess JSON_parse op c
                 (s\<lparr>lateContentHandlers :=
                      remove1 (clientId op, msgClientSequenceNumber op, sequenceNumber op)
                        (lateContentHandlers s)\<rparr>))
      | ForFetchContent op \<Rightarrow>
          (case fetchContent_result op messages of
             Inl e \<Rightarrow> inboundFailed s
           | Inr c \<Rightarrow> mergeAndProcess JSON_parse op c s)
      | ForCaller \<Rightarrow> s)"

definition getDeltas_rejected :: "purpose \<Rightarrow> DeltaManager \<Rightarrow> DeltaManager" where
  "getDeltas_rejected p s =
     (case p of
        ForCatchUp reason \<Rightarrow> s
      | ForWaitForContent op \<Rightarrow> inboundFailed s
      | ForFetchContent op \<Rightarrow> inboundFailed s
      | ForCaller \<Rightarrow> s)"

text \<open>The environment answers the round that call \<open>i\<close> is waiting in.\<close>

definition storageAnswer ::
  "(string \<Rightarrow> contents option) \<Rightarrow> nat \<Rightarrow> storage_answer \<Rightarrow> DeltaManager \<Rightarrow> DeltaManager" where
  "storageAnswer JSON_parse i a s =
     (if i < length (getDeltasCalls s) \<and> \<not> returnedAtEntry (getDeltasCalls s ! i)
      then (let c = getDeltasCalls s ! i
            in case getDeltas_round a c of
                 (Returns ms, es) \<Rightarrow>
                   getDeltas_resolved JSON_parse (purpose c) ms
                     (s\<lparr>getDeltasCalls := removeAt i (getDeltasCalls s), trace := trace s @ es\<rparr>)
               | (Rejects, es) \<Rightarrow>
                   getDeltas_rejected (purpose c)
                     (s\<lparr>getDeltasCalls := removeAt i (getDeltasCalls s), trace := trace s @ es\<rparr>)
               | (Continues c', es) \<Rightarrow>
                   s\<lparr>getDeltasCalls := (getDeltasCalls s)[i := c'], trace := trace s @ es\<rparr>)
      else s)"

text \<open>The empty result of a call made on a closed manager reaches its callback.\<close>

definition emptyResultDelivered ::
  "(string \<Rightarrow> contents option) \<Rightarrow> nat \<Rightarrow> DeltaManager \<Rightarrow> DeltaManager" where
  "emptyResultDelivered JSON_parse i s =
     (if i < length (getDeltasCalls s) \<and> returnedAtEntry (getDeltasCalls s ! i)
      then getDeltas_resolved JSON_parse (purpose (getDeltasCalls s ! i)) []
             (s\<lparr>getDeltasCalls := removeAt i (getDeltasCalls s)\<rparr>)
      else s)"

subsection \<open>The workers of the queues\<close>

text \<open>The inbound queue hands its first message to the worker given to the constructor.\<close>

definition inboundWorker :: "(string \<Rightarrow> contents option) \<Rightarrow> DeltaManager \<Rightarrow> DeltaManager" where
  "inboundWorker JSON_parse s =
     (if drains (inbound s) \<and> inboundStage s = None
      then (case items (inbound s) of
              [] \<Rightarrow> s
            | op # rest \<Rightarrow>
                (let s1 = s\<lparr>inbound := (inbound s)\<lparr>items := rest\<rparr>\<rparr>
                 in if contents op = Undefined then handleOpContent JSON_parse op s1
                    else processInboundOp JSON_parse op s1))
      else s)"

definition prepareResolved :: "DeltaManager \<Rightarrow> DeltaManager" where
  "prepareResolved s =
     (case inboundStage s of
        Some (AwaitPrepare message) \<Rightarrow> processMessage_prepared message s
      | _ \<Rightarrow> s)"

definition prepareRejected :: "DeltaManager \<Rightarrow> DeltaManager" where
  "prepareRejected s =
     (case inboundStage s of Some (AwaitPrepare message) \<Rightarrow> inboundFailed s | _ \<Rightarrow> s)"

definition postProcessResolved :: "DeltaManager \<Rightarrow> DeltaManager" where
  "postProcessResolved s =
     (case inboundStage s of
        Some (AwaitPostProcess message) \<Rightarrow> s\<lparr>inboundStage := None\<rparr>
      | _ \<Rightarrow> s)"

definition postProcessRejected :: "DeltaManager \<Rightarrow> DeltaManager" where
  "postProcessRejected s =
     (case inboundStage s of Some (AwaitPostProcess message) \<Rightarrow> inboundFailed s | _ \<Rightarrow> s)"

text \<open>\<^verbatim>\<open>JSON.parse(message.content)\<close> of a signal: the argument is read as a string.\<close>

definition parseSignal :: "(string \<Rightarrow> contents option) \<Rightarrow> contents \<Rightarrow> contents option" where
  "parseSignal JSON_parse c =
     (case c of Text t \<Rightarrow> JSON_parse t | Null \<Rightarrow> Some Null | _ \<Rightarrow> None)"

text \<open>
  The worker of the signal queue runs synchronously; an exception of \<^verbatim>\<open>JSON.parse\<close> or of
  the call of a missing handler leaves it before it calls back.
\<close>

definition signalWorker :: "(string \<Rightarrow> contents option) \<Rightarrow> DeltaManager \<Rightarrow> DeltaManager" where
  "signalWorker JSON_parse s =
     (if drains (inboundSignal s)
      then (case items (inboundSignal s) of
              [] \<Rightarrow> s
            | message # rest \<Rightarrow>
                (let s1 = s\<lparr>inboundSignal := (inboundSignal s)\<lparr>items := rest\<rparr>\<rparr>;
                     raised = (\<lambda>e. observe (Uncaught e)
                                (s1\<lparr>inboundSignal := (inboundSignal s1)\<lparr>busy := True\<rparr>\<rparr>))
                 in case parseSignal JSON_parse (content message) of
                      None \<Rightarrow> raised SyntaxError
                    | Some v \<Rightarrow>
                        if handler s1
                        then observe (HandlerProcessSignal (message\<lparr>content := v\<rparr>)) s1
                        else raised TypeError))
      else s)"

subsection \<open>The connection\<close>

text \<open>
  \<^verbatim>\<open>connectCore(reason, delay)\<close> calls \<^verbatim>\<open>DeltaConnection.Connect\<close>; the attempt stays in
  \<open>connectAttempts\<close>, with the \<^verbatim>\<open>delay\<close> its callbacks have captured, until it settles.
\<close>

definition connectCore :: "int \<Rightarrow> DeltaManager \<Rightarrow> DeltaManager" where
  "connectCore delay s =
     (observe DeltaConnectionConnect s)\<lparr>connectAttempts := connectAttempts s @ [delay]\<rparr>"

text \<open>
  \<^verbatim>\<open>connect(reason)\<close>. The promise of the delta storage it also requests is not part of
  the state: what awaiting it gives is an answer of the environment (see
  \<open>storage_answer\<close>).
\<close>

definition connect :: "DeltaManager \<Rightarrow> DeltaManager" where
  "connect s = (if connecting s then s else connectCore InitialReconnectDelay (s\<lparr>connecting := True\<rparr>))"

text \<open>The rejection callback of attempt \<open>i\<close>.\<close>

definition connectFailed :: "nat \<Rightarrow> DeltaManager \<Rightarrow> DeltaManager" where
  "connectFailed i s =
     (if i < length (connectAttempts s)
      then (let delay = min (connectAttempts s ! i) MaxReconnectDelay;
                s1 = observe (LogConnectionFailure delay) s;
                s2 = observe (SetReconnectTimeout delay) s1
            in s2\<lparr>connectAttempts := removeAt i (connectAttempts s2),
                  reconnectTimers := reconnectTimers s2 @ [delay * 2]\<rparr>)
      else s)"

text \<open>The timer set by a failed attempt fires: \<^verbatim>\<open>connectCore(reason, delay * 2)\<close>.\<close>

definition reconnectTimerFired :: "nat \<Rightarrow> DeltaManager \<Rightarrow> DeltaManager" where
  "reconnectTimerFired j s =
     (if j < length (reconnectTimers s)
      then connectCore (reconnectTimers s ! j)
             (s\<lparr>reconnectTimers := removeAt j (reconnectTimers s)\<rparr>)
      else s)"

definition enqueInitalOps ::
  "ISequencedDocumentMessage list \<Rightarrow> IContentMessage list \<Rightarrow> DeltaManager \<Rightarrow> DeltaManager" where
  "enqueInitalOps messages cs s =
     (let s1 = fold contentCache_set cs s
      in if messages \<noteq> [] then catchUp ''enqueInitalOps'' messages s1 else s1)"

definition enqueInitalSignals :: "ISignalMessage list \<Rightarrow> DeltaManager \<Rightarrow> DeltaManager" where
  "enqueInitalSignals signals s =
     s\<lparr>inboundSignal := fold (\<lambda>signal q. push q signal) signals (inboundSignal s)\<rparr>"

definition processInitialMessages ::
  "ISequencedDocumentMessage list \<Rightarrow> IContentMessage list \<Rightarrow> ISignalMessage list
     \<Rightarrow> DeltaManager \<Rightarrow> DeltaManager" where
  "processInitialMessages messages cs signals s =
     (let s1 = (if \<not> handler s \<or> paused (inbound s)
                then s\<lparr>inboundResumeOnce := inboundResumeOnce s @ [(messages, cs)]\<rparr>
                else enqueInitalOps messages cs s)
      in if \<not> handler s1 \<or> paused (inboundSignal s1)
         then s1\<lparr>signalResumeOnce := signalResumeOnce s1 @ [signals]\<rparr>
         else enqueInitalSignals signals s1)"

text \<open>
  The "resume" event of a queue (``when draining resumes from fully paused''), with
  the listeners \<^verbatim>\<open>processInitialMessages\<close> has left for it. \<open>q\<close> is the queue before.
\<close>

definition inboundResumed :: "ISequencedDocumentMessage DeltaQueue \<Rightarrow> DeltaManager \<Rightarrow> DeltaManager" where
  "inboundResumed q s =
     (if paused q \<and> \<not> paused (inbound s)
      then fold (\<lambda>(messages, cs). enqueInitalOps messages cs) (inboundResumeOnce s)
             (s\<lparr>inboundResumeOnce := []\<rparr>)
      else s)"

definition signalResumed :: "ISignalMessage DeltaQueue \<Rightarrow> DeltaManager \<Rightarrow> DeltaManager" where
  "signalResumed q s =
     (if paused q \<and> \<not> paused (inboundSignal s)
      then fold enqueInitalSignals (signalResumeOnce s) (s\<lparr>signalResumeOnce := []\<rparr>)
      else s)"

text \<open>The fulfilment callback of attempt \<open>i\<close>, up to the wiring of the listeners.\<close>

definition connectSucceeded ::
  "nat \<Rightarrow> DeltaConnection \<Rightarrow> ISequencedDocumentMessage list \<Rightarrow> IContentMessage list
     \<Rightarrow> ISignalMessage list \<Rightarrow> DeltaManager \<Rightarrow> DeltaManager" where
  "connectSucceeded i c initialMessages initialContents initialSignals s =
     (if i < length (connectAttempts s)
      then (let s1 = s\<lparr>connectAttempts := removeAt i (connectAttempts s),
                       connection := Some c,
                       outbound := systemResume (outbound s),
                       clientSequenceNumber := 0,
                       connecting := False\<rparr>
            in observe EmitConnect
                 (processInitialMessages initialMessages initialContents initialSignals s1))
      else s)"

text \<open>The listeners wired to the connection.\<close>

definition on_op :: "ISequencedDocumentMessage list \<Rightarrow> DeltaManager \<Rightarrow> DeltaManager" where
  "on_op messages s = (if handler s then enqueueMessages messages s else s)"

definition on_op_content :: "IContentMessage \<Rightarrow> DeltaManager \<Rightarrow> DeltaManager" where
  "on_op_content message s = (if handler s then contentCache_set message s else s)"

definition on_signal :: "ISignalMessage \<Rightarrow> DeltaManager \<Rightarrow> DeltaManager" where
  "on_signal message s =
     (if handler s then s\<lparr>inboundSignal := push (inboundSignal s) message\<rparr> else s)"

text \<open>
  The listeners for "nack" (\<open>wasNack\<close>) and "disconnect" differ only in the flag they
  emit. Reconnection is only enabled for browser clients.
\<close>

definition lostConnection :: "bool \<Rightarrow> DeltaManager \<Rightarrow> DeltaManager" where
  "lostConnection wasNack s =
     (let reconnect = (clientType s = Browser);
          s1 = s\<lparr>outbound := clear (systemPause (outbound s))\<rparr>;
          s2 = observe (EmitDisconnect wasNack) s1
      in if \<not> reconnect
         then s2\<lparr>inbound := clear (systemPause (inbound s2)),
                 inboundSignal := clear (systemPause (inboundSignal s2))\<rparr>
         else connectCore InitialReconnectDelay s2)"

definition on_nack :: "DeltaManager \<Rightarrow> DeltaManager" where
  "on_nack s = lostConnection True s"

definition on_disconnect :: "DeltaManager \<Rightarrow> DeltaManager" where
  "on_disconnect s = lostConnection False s"

definition attachOpHandler :: "int \<Rightarrow> bool \<Rightarrow> DeltaManager \<Rightarrow> DeltaManager" where
  "attachOpHandler n resumeQueues s =
     (let s1 = s\<lparr>baseSequenceNumber := n, minSequenceNumber := n,
                 lastQueuedSequenceNumber := Some n, largestSequenceNumber := Some n,
                 handler := True\<rparr>
      in if resumeQueues
         then (let s2 = inboundResumed (inbound s1) (s1\<lparr>inbound := systemResume (inbound s1)\<rparr>);
                   s3 = signalResumed (inboundSignal s2)
                          (s2\<lparr>inboundSignal := systemResume (inboundSignal s2)\<rparr>)
               in fetchMissingDeltas ''DocumentOpen'' n None s3)
         else s1)"

subsection \<open>Events\<close>

text \<open>
  Everything that can run on the event loop: the public methods, the handles of the
  queues (\<^verbatim>\<open>inbound\<close>, \<^verbatim>\<open>inboundSignal\<close>), the events of a connection (which only exist
  once a connection has been made), settled promises and timers.
\<close>

datatype event =
    Submit MessageType contents
  | SubmitSignal contents
  | EnableReadonlyMode
  | DisableReadonlyMode
  | Close
  | Connect
  | AttachOpHandler int bool
  | GetDeltas int "int option"
  | InboundPause | InboundResume
  | SignalPause | SignalResume
  | ConnectSucceeded nat DeltaConnection "ISequencedDocumentMessage list"
      "IContentMessage list" "ISignalMessage list"
  | ConnectFailed nat
  | ReconnectTimerFired nat
  | OnOp "ISequencedDocumentMessage list"
  | OnOpContent IContentMessage
  | OnSignal ISignalMessage
  | OnNack
  | OnDisconnect
  | StorageAnswer nat storage_answer
  | EmptyResultDelivered nat
  | InboundWorker
  | PrepareResolved | PrepareRejected
  | PostProcessResolved | PostProcessRejected
  | SignalWorker
  | AckTimerFired

definition connected :: "(DeltaManager \<Rightarrow> DeltaManager) \<Rightarrow> DeltaManager \<Rightarrow> DeltaManager" where
  "connected f s = (case connection s of None \<Rightarrow> s | Some c \<Rightarrow> f s)"

fun step :: "(string \<Rightarrow> contents option) \<Rightarrow> event \<Rightarrow> DeltaManager \<Rightarrow> DeltaManager" where
  "step P (Submit ty c) s = snd (submit ty c s)"
| "step P (SubmitSignal c) s = (case submitSignal c s of Inl e \<Rightarrow> s | Inr s' \<Rightarrow> s')"
| "step P EnableReadonlyMode s = enableReadonlyMode s"
| "step P DisableReadonlyMode s = disableReadonlyMode s"
| "step P Close s = close s"
| "step P Connect s = connect s"
| "step P (AttachOpHandler n r) s = attachOpHandler n r s"
| "step P (GetDeltas n t) s = getDeltas ForCaller ''caller'' n t s"
| "step P InboundPause s = s\<lparr>inbound := pause (inbound s)\<rparr>"
| "step P InboundResume s = inboundResumed (inbound s) (s\<lparr>inbound := resume (inbound s)\<rparr>)"
| "step P SignalPause s = s\<lparr>inboundSignal := pause (inboundSignal s)\<rparr>"
| "step P SignalResume s =
     signalResumed (inboundSignal s) (s\<lparr>inboundSignal := resume (inboundSignal s)\<rparr>)"
| "step P (ConnectSucceeded i c ms cs sigs) s = connectSucceeded i c ms cs sigs s"
| "step P (ConnectFailed i) s = connectFailed i s"
| "step P (ReconnectTimerFired j) s = reconnectTimerFired j s"
| "step P (OnOp ms) s = connected (on_op ms) s"
| "step P (OnOpContent c) s = connected (on_op_content c) s"
| "step P (OnSignal m) s = connected (on_signal m) s"
| "step P OnNack s = connected on_nack s"
| "step P OnDisconnect s = connected on_disconnect s"
| "step P (StorageAnswer i a) s = storageAnswer P i a s"
| "step P (EmptyResultDelivered i) s = emptyResultDelivered P i s"
| "step P InboundWorker s = inboundWorker P s"
| "step P PrepareResolved s = prepareResolved s"
| "step P PrepareRejected s = prepareRejected s"
| "step P PostProcessResolved s = postProcessResolved s"
| "step P PostProcessRejected s = postProcessRejected s"
| "step P SignalWorker s = signalWorker P s"
| "step P AckTimerFired s = ackTimerFired s"

definition run :: "(string \<Rightarrow> contents option) \<Rightarrow> event list \<Rightarrow> DeltaManager \<Rightarrow> DeltaManager" where
  "run P es s = fold (step P) es s"

subsection \<open>Reading a trace\<close>

fun processedMessages :: "effect list \<Rightarrow> ISequencedDocumentMessage list" where
  "processedMessages [] = []"
| "processedMessages (HandlerProcess m # es) = m # processedMessages es"
| "processedMessages (e # es) = processedMessages es"

fun handlerCalls :: "effect list \<Rightarrow> effect list" where
  "handlerCalls [] = []"
| "handlerCalls (HandlerPrepare m # es) = HandlerPrepare m # handlerCalls es"
| "handlerCalls (HandlerProcess m # es) = HandlerProcess m # handlerCalls es"
| "handlerCalls (HandlerPostProcess m # es) = HandlerPostProcess m # handlerCalls es"
| "handlerCalls (HandlerProcessSignal m # es) = HandlerProcessSignal m # handlerCalls es"
| "handlerCalls (e # es) = handlerCalls es"

fun storageRequests :: "effect list \<Rightarrow> (int \<times> int) list" where
  "storageRequests [] = []"
| "storageRequests (StorageGet a b # es) = (a, b) # storageRequests es"
| "storageRequests (e # es) = storageRequests es"

fun sleeps :: "effect list \<Rightarrow> int list" where
  "sleeps [] = []"
| "sleeps (Sleep d # es) = d # sleeps es"
| "sleeps (e # es) = sleeps es"

fun reconnectDelays :: "effect list \<Rightarrow> int list" where
  "reconnectDelays [] = []"
| "reconnectDelays (SetReconnectTimeout d # es) = d # reconnectDelays es"
| "reconnectDelays (e # es) = reconnectDelays es"

text \<open>Sample messages for the examples: message \<open>n\<close> of client A.\<close>

definition sequenced :: "int \<Rightarrow> MessageType \<Rightarrow> contents \<Rightarrow> ISequencedDocumentMessage" where
  "sequenced n ty c =
     \<lparr>sequenceNumber = n, minimumSequenceNumber = 0, clientId = ''A'',
      msgClientSequenceNumber = n, mtype = ty, contents = c, traces = []\<rparr>"

text \<open>A sample \<^verbatim>\<open>JSON.parse\<close> for the examples: every string decodes.\<close>

definition JSON_sample :: "string \<Rightarrow> contents option" where
  "JSON_sample t = Some (Structured t)"

text \<open>A browser client after its first connection, and after attaching a handler.\<close>

definition connectedBrowser :: DeltaManager where
  "connectedBrowser =
     run JSON_sample [Connect, ConnectSucceeded 0 \<lparr>details_clientId = ''me''\<rparr> [] [] []]
       (DeltaManager_new None)"

definition attachedAt :: "int \<Rightarrow> DeltaManager" where
  "attachedAt n = run JSON_sample [AttachOpHandler n False, InboundResume] connectedBrowser"

text \<open>Connection attempts that fail \<open>n\<close> times in a row, each followed by its timer.\<close>

definition failedAttempts :: "nat \<Rightarrow> event list" where
  "failedAttempts n = concat (replicate n [ConnectFailed 0, ReconnectTimerFired 0])"

text \<open>
  What the acknowledgement throttle reads and writes, and the events by which messages
  are received and processed.
\<close>

definition ack :: "DeltaManager \<Rightarrow> bool \<times> MessageType option \<times> bool \<times> IDocumentMessage DeltaQueue \<times> int" where
  "ack s = (readonly s, updateSequenceNumberTimer s, updateHasBeenRequested s, outbound s,
            clientSequenceNumber s)"

fun receiving :: "event \<Rightarrow> bool" where
  "receiving (OnOp ms) = True"
| "receiving (OnOpContent c) = True"
| "receiving (OnSignal m) = True"
| "receiving (StorageAnswer i a) = True"
| "receiving (EmptyResultDelivered i) = True"
| "receiving InboundWorker = True"
| "receiving PrepareResolved = True"
| "receiving PrepareRejected = True"
| "receiving PostProcessResolved = True"
| "receiving PostProcessRejected = True"
| "receiving SignalWorker = True"
| "receiving e = False"

text \<open>A client that has submitted and then entered readonly mode; five operations.\<close>

definition readonlyClient :: DeltaManager where
  "readonlyClient = run JSON_sample [Submit Operation (Text ''x''), EnableReadonlyMode] (attachedAt 0)"

definition fiveOperations :: "event list" where
  "fiveOperations =
     [OnOp [sequenced 1 Operation Null, sequenced 2 Operation Null, sequenced 3 Operation Null,
            sequenced 4 Operation Null, sequenced 5 Operation Null],
      InboundWorker, PrepareResolved, PostProcessResolved,
      InboundWorker, PrepareResolved, PostProcessResolved,
      InboundWorker, PrepareResolved, PostProcessResolved,
      InboundWorker, PrepareResolved, PostProcessResolved,
      InboundWorker, PrepareResolved, PostProcessResolved,
      AckTimerFired]"

text \<open>A manager whose inbound worker awaits \<^verbatim>\<open>handler.prepare\<close> for message 1.\<close>

definition preparingFirst :: DeltaManager where
  "preparingFirst = run JSON_sample [OnOp [sequenced 1 Operation Null], InboundWorker] (attachedAt 0)"

text \<open>
  The inbound worker has taken envelope 13, which came without contents, and waits for
  them (the cache has none for client A); the content message that arrives late.
\<close>

definition awaitingContent :: DeltaManager where
  "awaitingContent =
     run JSON_sample [OnOp [sequenced 13 Operation Undefined], InboundWorker] (attachedAt 12)"

definition lateContent :: IContentMessage where
  "lateContent = \<lparr>cClientId = ''A'', cClientSequenceNumber = 13, cContents = Text ''payload''\<rparr>"

text \<open>\<open>n\<close> messages taken by the inbound worker, \<^verbatim>\<open>prepare\<close> and \<^verbatim>\<open>postProcess\<close> resolving.\<close>

definition workerRounds :: "nat \<Rightarrow> event list" where
  "workerRounds n = concat (replicate n [InboundWorker, PrepareResolved, PostProcessResolved])"

text \<open>
  The calls of \<^verbatim>\<open>getDeltas\<close> made by \<^verbatim>\<open>fetchMissingDeltas\<close> that have not settled. The
  manager is \<open>latched\<close> when the flag \<^verbatim>\<open>fetching\<close> is set and no such call is left.
\<close>

fun forCatchUp :: "purpose \<Rightarrow> bool" where
  "forCatchUp (ForCatchUp reason) = True"
| "forCatchUp p = False"

definition catchUpCalls :: "DeltaManager \<Rightarrow> getDeltasCall list" where
  "catchUpCalls s = filter (\<lambda>c. forCatchUp (purpose c)) (getDeltasCalls s)"

definition latched :: "DeltaManager \<Rightarrow> bool" where
  "latched s = (fetching s \<and> catchUpCalls s = [])"

text \<open>
  A gap has been opened by message 3, and the fetch for it is in flight; then the
  promise of that fetch is rejected and further messages arrive.
\<close>

definition gapOpen :: DeltaManager where
  "gapOpen = run JSON_sample [OnOp [sequenced 3 Operation Null]] (attachedAt 0)"

definition afterRejection :: "event list" where
  "afterRejection =
     [StorageAnswer 0 DeltaStorageRejects,
      OnOp [sequenced 5 Operation Null], OnOp [sequenced 1 Operation Null],
      InboundWorker, PrepareResolved, PostProcessResolved, OnOp [sequenced 7 Operation Null]]"

section \<open>Properties\<close>

text \<open>The definitions unfolded to run the model on a concrete input.\<close>

lemmas model_defs =
  run_def connect_def connectCore_def connectSucceeded_def processInitialMessages_def
  enqueInitalOps_def enqueInitalSignals_def inboundResumed_def signalResumed_def
  attachOpHandler_def DeltaManager_new_def observe_def removeAt_def Let_def
  newQueue_def paused_def push_def clear_def pause_def resume_def systemPause_def
  systemResume_def drains_def connected_def on_op_def on_op_content_def on_signal_def
  enqueueMessages_def enqueueMessage_def handleOutOfOrderMessage_def fetchMissingDeltas_def
  getDeltas_def newCall_def catchUp_def inboundWorker_def processInboundOp_def
  processMessage_def decodeContents_def processMessage_prepared_def addEndTrace_def
  updateSequenceNumber_def prepareResolved_def postProcessResolved_def
  submit_def createOutboundMessage_def stopSequenceNumberUpdate_def enableReadonlyMode_def
  disableReadonlyMode_def ackTimerFired_def storageAnswer_def getDeltas_resolved_def
  getDeltas_rejected_def emptyResultDelivered_def close_def
  connectedBrowser_def attachedAt_def JSON_sample_def sequenced_def Browser_def
  ImmediateNoOpResponse_def

subsection \<open>Admission\<close>

text \<open>
  C1 (gap-free admission). Let the last queued sequence number be \<open>N\<close> and let one
  message \<open>M\<close> go through \<^verbatim>\<open>enqueueMessages\<close>.
  \<^item> If \<open>M\<close> has the number \<open>N + 1\<close> it is pushed onto the inbound queue and the last
    queued number becomes its number; nothing else changes but the largest number seen.
  \<^item> Otherwise the inbound queue and the last queued number stay as they are: \<open>M\<close> is
    admitted if and only if its number is \<open>N + 1\<close>.
  \<^item> If the number of \<open>M\<close> is above \<open>N + 1\<close>, \<open>M\<close> is appended to \<open>pending\<close> and
    \<^verbatim>\<open>fetchMissingDeltas\<close> is called for the range from \<open>N\<close> to the number of \<open>M\<close>: a fetch
    is in flight afterwards, a new one being started unless one was in flight already.
  \<^item> If the number of \<open>M\<close> is at most \<open>N\<close>, the duplicate is logged and the state changes
    in nothing else but the largest number seen.
\<close>

theorem gap_free_admission:
  assumes "lastQueuedSequenceNumber s = Some N"
  shows "(sequenceNumber M = N + 1 \<longrightarrow>
            enqueueMessages [M] s =
              s\<lparr>largestSequenceNumber :=
                   map_option (\<lambda>l. max l (sequenceNumber M)) (largestSequenceNumber s),
                lastQueuedSequenceNumber := Some (sequenceNumber M),
                inbound := push (inbound s) M\<rparr>)
       \<and> (sequenceNumber M \<noteq> N + 1 \<longrightarrow>
            inbound (enqueueMessages [M] s) = inbound s
          \<and> lastQueuedSequenceNumber (enqueueMessages [M] s) = Some N)
       \<and> (sequenceNumber M > N + 1 \<longrightarrow>
            enqueueMessages [M] s =
              fetchMissingDeltas ''HandleOutOfOrderMessage'' N (Some (sequenceNumber M))
                (s\<lparr>largestSequenceNumber :=
                     map_option (\<lambda>l. max l (sequenceNumber M)) (largestSequenceNumber s),
                   pending := pending s @ [M]\<rparr>)
          \<and> pending (enqueueMessages [M] s) = pending s @ [M]
          \<and> fetching (enqueueMessages [M] s)
          \<and> (\<not> fetching s \<longrightarrow>
                getDeltasCalls (enqueueMessages [M] s) =
                  getDeltasCalls s @ [newCall (ForCatchUp ''HandleOutOfOrderMessage'') N
                                        (Some (sequenceNumber M)) (closed s)]))
       \<and> (sequenceNumber M \<le> N \<longrightarrow>
            enqueueMessages [M] s =
              s\<lparr>largestSequenceNumber :=
                   map_option (\<lambda>l. max l (sequenceNumber M)) (largestSequenceNumber s),
                trace := trace s @ [LogDuplicateMessage N (sequenceNumber M)]\<rparr>)"
  using assms
  by (cases "largestSequenceNumber s")
     (auto simp: enqueueMessages_def enqueueMessage_def handleOutOfOrderMessage_def
        fetchMissingDeltas_def getDeltas_def observe_def push_def Let_def)

theorem gap_free_admission_witness:
  "lastQueuedSequenceNumber (attachOpHandler 5 False (DeltaManager_new None)) = Some 5
   \<and> map sequenceNumber (items (inbound (enqueueMessages [sequenced 6 Operation Null]
        (attachOpHandler 5 False (DeltaManager_new None))))) = [6]
   \<and> map sequenceNumber (pending (enqueueMessages [sequenced 9 Operation Null]
        (attachOpHandler 5 False (DeltaManager_new None)))) = [9]
   \<and> map toSeq (getDeltasCalls (enqueueMessages [sequenced 9 Operation Null]
        (attachOpHandler 5 False (DeltaManager_new None)))) = [Some 9]
   \<and> trace (enqueueMessages [sequenced 3 Operation Null]
        (attachOpHandler 5 False (DeltaManager_new None))) = [LogDuplicateMessage 5 3]"
proof -
  let ?s = "attachOpHandler 5 False (DeltaManager_new None)"
  have h: "lastQueuedSequenceNumber ?s = Some 5"
    by (simp add: attachOpHandler_def DeltaManager_new_def)
  show ?thesis
    using h gap_free_admission [OF h, of "sequenced 6 Operation Null"]
      gap_free_admission [OF h, of "sequenced 9 Operation Null"]
      gap_free_admission [OF h, of "sequenced 3 Operation Null"]
    by (simp add: sequenced_def attachOpHandler_def DeltaManager_new_def push_def pause_def
        newQueue_def newCall_def fetchMissingDeltas_def getDeltas_def observe_def)
qed

subsection \<open>Submitting without a connection\<close>

text \<open>
  C9 (implicit precondition of \<^verbatim>\<open>submitSignal\<close>). On a manager without a connection
  \<^verbatim>\<open>submitSignal\<close> raises (it dereferences the absent connection) and queues nothing,
  whereas \<^verbatim>\<open>submit\<close> returns the next client sequence number and pushes the envelope
  onto the outbound queue, whose pause flags it leaves as they are. (A manager is
  constructed with its outbound queue paused, see the witness.)
\<close>

theorem submitSignal_needs_connection:
  assumes "connection s = None"
  shows "submitSignal c s = Inl TypeError
       \<and> fst (submit ty c' s) = clientSequenceNumber s + 1
       \<and> items (outbound (snd (submit ty c' s)))
           = items (outbound s)
             @ [createOutboundMessage ty
                  \<lparr>docClientSequenceNumber = clientSequenceNumber s + 1, docContents = c',
                   docReferenceSequenceNumber = baseSequenceNumber s,
                   docTraces = [\<lparr>action = ''start'', service = clientType s\<rparr>],
                   docType = ty, data = None\<rparr>]
       \<and> paused (outbound (snd (submit ty c' s))) = paused (outbound s)
       \<and> connection (snd (submit ty c' s)) = None
       \<and> trace (snd (submit ty c' s)) = trace s"
  using assms
  by (simp add: submitSignal_def submit_def createOutboundMessage_def stopSequenceNumberUpdate_def
      push_def paused_def Let_def)

theorem submitSignal_needs_connection_witness:
  "connection (DeltaManager_new None) = None
   \<and> paused (outbound (DeltaManager_new None))
   \<and> submitSignal (Text ''s'') (DeltaManager_new None) = Inl TypeError
   \<and> fst (submit Operation (Text ''op'') (DeltaManager_new None)) = 1
   \<and> map docContents (items (outbound (snd (submit Operation (Text ''op'')
        (DeltaManager_new None))))) = [Text ''op'']
   \<and> paused (outbound (snd (submit Operation (Text ''op'') (DeltaManager_new None))))"
proof -
  have h: "connection (DeltaManager_new None) = None" by (simp add: DeltaManager_new_def)
  show ?thesis
    using h submitSignal_needs_connection [OF h, of "Text ''s''" Operation "Text ''op''"]
    by (simp add: DeltaManager_new_def createOutboundMessage_def paused_def pause_def newQueue_def)
qed

subsection \<open>System messages\<close>

text \<open>
  C6, as stated, fails: \<^verbatim>\<open>submit\<close> takes \<^verbatim>\<open>contents: string | null\<close>, and a system-type
  message submitted with \<^verbatim>\<open>null\<close> gets \<^verbatim>\<open>data = null\<close>.
\<close>

theorem system_message_null_data:
  "isSystemType ClientJoin
   \<and> map docContents (items (outbound (snd (submit ClientJoin Null (DeltaManager_new None)))))
       = [Null]
   \<and> map data (items (outbound (snd (submit ClientJoin Null (DeltaManager_new None)))))
       = [Some Null]"
  by (simp add: submit_def createOutboundMessage_def stopSequenceNumberUpdate_def push_def
      DeltaManager_new_def pause_def newQueue_def)

text \<open>
  C6 (amended). For every envelope built by \<^verbatim>\<open>submit(type, contents)\<close> with a system
  type: it is the one envelope pushed onto the outbound queue, its \<^verbatim>\<open>contents\<close> is
  \<^verbatim>\<open>null\<close>, and its \<^verbatim>\<open>data\<close> is the contents that were supplied; so \<^verbatim>\<open>data\<close> is not
  \<^verbatim>\<open>null\<close> exactly when the supplied contents were not.
\<close>

theorem system_message_shaping:
  assumes "isSystemType ty"
  shows "items (outbound (snd (submit ty c s)))
           = items (outbound s) @ [last (items (outbound (snd (submit ty c s))))]
       \<and> docContents (last (items (outbound (snd (submit ty c s))))) = Null
       \<and> data (last (items (outbound (snd (submit ty c s))))) = Some c
       \<and> docClientSequenceNumber (last (items (outbound (snd (submit ty c s)))))
           = fst (submit ty c s)
       \<and> (data (last (items (outbound (snd (submit ty c s))))) \<noteq> Some Null) = (c \<noteq> Null)"
  using assms
  by (simp add: submit_def createOutboundMessage_def stopSequenceNumberUpdate_def push_def Let_def)

theorem system_message_shaping_witness:
  "isSystemType ClientLeave
   \<and> map data (items (outbound (snd (submit ClientLeave (Text ''bye'')
        (DeltaManager_new None))))) = [Some (Text ''bye'')]
   \<and> map docContents (items (outbound (snd (submit ClientLeave (Text ''bye'')
        (DeltaManager_new None))))) = [Null]"
proof -
  have h: "isSystemType ClientLeave" by simp
  show ?thesis
    using h system_message_shaping [OF h, of "Text ''bye''" "DeltaManager_new None"]
    by (simp add: submit_def createOutboundMessage_def stopSequenceNumberUpdate_def push_def
      DeltaManager_new_def pause_def newQueue_def)
qed

subsection \<open>Retrying a fetch\<close>

lemmas round_defs = getDeltas_round_def endOfRound_def nextRetry_def fetchDelay_def
  MaxFetchDelay_def MissingFetchDelay_def MaxBatchDeltas_def

text \<open>
  C4, as stated, fails in its scenario: the delay is computed from the counter after
  its increment, so the first delay is 200 ms. Storage answers \<^verbatim>\<open>[]\<close> three times and
  then with the messages 1 and 2, to a call for the range from 0 to 3.
\<close>

theorem fetch_retry_delays_scenario:
  "fst (getDeltas_loop [GetReturns [], GetReturns [], GetReturns [],
          GetReturns [sequenced 1 Operation Null, sequenced 2 Operation Null]]
        (newCall ForCaller 0 (Some 3) False))
     = Some (Returns [sequenced 1 Operation Null, sequenced 2 Operation Null])
   \<and> storageRequests (snd (getDeltas_loop [GetReturns [], GetReturns [], GetReturns [],
          GetReturns [sequenced 1 Operation Null, sequenced 2 Operation Null]]
        (newCall ForCaller 0 (Some 3) False))) = [(0, 3), (0, 3), (0, 3), (0, 3)]
   \<and> sleeps (snd (getDeltas_loop [GetReturns [], GetReturns [], GetReturns [],
          GetReturns [sequenced 1 Operation Null, sequenced 2 Operation Null]]
        (newCall ForCaller 0 (Some 3) False))) = [200, 400, 800]
   \<and> sleeps (snd (getDeltas_loop [GetReturns [], GetReturns [], GetReturns [],
          GetReturns [sequenced 1 Operation Null, sequenced 2 Operation Null]]
        (newCall ForCaller 0 (Some 3) False))) \<noteq> [100, 200, 400]"
  by (simp add: round_defs newCall_def Let_def sequenced_def)

text \<open>
  C4 (amended). In every round of \<^verbatim>\<open>getDeltas\<close>:
  \<^item> when the storage request raises, the retry counter is incremented and the next
    request is delayed by \<open>min MaxFetchDelay (MissingFetchDelay * 2 ^ retry)\<close>, \<open>retry\<close> being
    the incremented counter;
  \<^item> the same holds when the request returns no message and the call does not return
    on that (it has an upper bound, which is not the message after \<open>from\<close>);
  \<^item> a request that returns messages and does not end the call resets the counter to
    0, and the next request is not delayed;
  \<^item> \<open>MissingFetchDelay\<close> is 100 and \<open>MaxFetchDelay\<close> is 10000;
  \<^item> when storage answers \<^verbatim>\<open>[]\<close> three times and then with the messages up to the upper
    bound, the fourth request ends the call with these messages, and the delays between
    the four requests are 200, 400 and 800 ms.
\<close>

theorem fetch_retry:
  "fst (getDeltas_round GetThrows c) = Continues (c\<lparr>retry := retry c + 1\<rparr>)
   \<and> sleeps (snd (getDeltas_round GetThrows c))
       = [min MaxFetchDelay (MissingFetchDelay * 2 ^ (retry c + 1))]
   \<and> (toSeq c \<noteq> None \<and> toSeq c \<noteq> Some (fromSeq c + 1) \<longrightarrow>
        fst (getDeltas_round (GetReturns []) c) = Continues (c\<lparr>retry := retry c + 1\<rparr>)
      \<and> sleeps (snd (getDeltas_round (GetReturns []) c))
          = [min MaxFetchDelay (MissingFetchDelay * 2 ^ (retry c + 1))])
   \<and> (ds \<noteq> [] \<and> fst (getDeltas_round (GetReturns ds) c) = Continues c' \<longrightarrow>
        retry c' = 0 \<and> sleeps (snd (getDeltas_round (GetReturns ds) c)) = [0])
   \<and> MissingFetchDelay = 100 \<and> MaxFetchDelay = 10000
   \<and> (t \<noteq> f + 1 \<and> ms \<noteq> [] \<and> sequenceNumber (last ms) + 1 = t \<longrightarrow>
        fst (getDeltas_loop [GetReturns [], GetReturns [], GetReturns [], GetReturns ms]
               (newCall p f (Some t) False)) = Some (Returns ms)
      \<and> sleeps (snd (getDeltas_loop [GetReturns [], GetReturns [], GetReturns [], GetReturns ms]
               (newCall p f (Some t) False))) = [200, 400, 800])"
  by (auto simp: round_defs newCall_def Let_def split: if_splits prod.splits)

theorem fetch_retry_witness:
  "fst (getDeltas_round GetThrows ((newCall ForCaller 0 (Some 3) False)\<lparr>retry := 2\<rparr>))
     = Continues ((newCall ForCaller 0 (Some 3) False)\<lparr>retry := 3\<rparr>)
   \<and> sleeps (snd (getDeltas_round GetThrows ((newCall ForCaller 0 (Some 3) False)\<lparr>retry := 2\<rparr>)))
     = [800]
   \<and> fst (getDeltas_round (GetReturns []) ((newCall ForCaller 0 (Some 3) False)\<lparr>retry := 2\<rparr>))
     = Continues ((newCall ForCaller 0 (Some 3) False)\<lparr>retry := 3\<rparr>)
   \<and> sleeps (snd (getDeltas_round (GetReturns [])
        ((newCall ForCaller 0 (Some 3) False)\<lparr>retry := 2\<rparr>))) = [800]
   \<and> fst (getDeltas_round (GetReturns [sequenced 1 Operation Null])
            ((newCall ForCaller 0 (Some 3) False)\<lparr>retry := 2\<rparr>))
     = Continues ((newCall ForCaller 0 (Some 3) False)
                    \<lparr>retry := 0, fromSeq := 1, allDeltas := [sequenced 1 Operation Null]\<rparr>)
   \<and> sleeps (snd (getDeltas_round (GetReturns [sequenced 1 Operation Null])
            ((newCall ForCaller 0 (Some 3) False)\<lparr>retry := 2\<rparr>))) = [0]
   \<and> fst (getDeltas_loop [GetReturns [], GetReturns [], GetReturns [],
          GetReturns [sequenced 7 Operation Null, sequenced 8 Operation Null]]
        (newCall ForCaller 6 (Some 9) False))
     = Some (Returns [sequenced 7 Operation Null, sequenced 8 Operation Null])
   \<and> sleeps (snd (getDeltas_loop [GetReturns [], GetReturns [], GetReturns [],
          GetReturns [sequenced 7 Operation Null, sequenced 8 Operation Null]]
        (newCall ForCaller 6 (Some 9) False))) = [200, 400, 800]"
proof -
  let ?c = "(newCall ForCaller 0 (Some 3) False)\<lparr>retry := 2\<rparr>"
  let ?c' = "(newCall ForCaller 0 (Some 3) False)
               \<lparr>retry := 0, fromSeq := 1, allDeltas := [sequenced 1 Operation Null]\<rparr>"
  let ?ms = "[sequenced 7 Operation Null, sequenced 8 Operation Null]"
  have h1: "toSeq ?c \<noteq> None \<and> toSeq ?c \<noteq> Some (fromSeq ?c + 1)"
    by (simp add: newCall_def)
  have h2: "[sequenced 1 Operation Null] \<noteq> []
            \<and> fst (getDeltas_round (GetReturns [sequenced 1 Operation Null]) ?c) = Continues ?c'"
    by (simp add: round_defs newCall_def Let_def sequenced_def)
  have h3: "(9::int) \<noteq> 6 + 1 \<and> ?ms \<noteq> [] \<and> sequenceNumber (last ?ms) + 1 = 9"
    by (simp add: sequenced_def)
  have r: "?c\<lparr>retry := retry ?c + 1\<rparr> = (newCall ForCaller 0 (Some 3) False)\<lparr>retry := 3\<rparr>"
    "min MaxFetchDelay (MissingFetchDelay * 2 ^ (retry ?c + 1)) = 800"
    by (simp_all add: newCall_def MaxFetchDelay_def MissingFetchDelay_def)
  from fetch_retry [of ?c "[sequenced 1 Operation Null]" ?c' 9 6 ?ms ForCaller] h1 h2 h3
  show ?thesis unfolding r by blast
qed

subsection \<open>Reconnecting\<close>

lemma reconnectDelays_append:
  "reconnectDelays (xs @ ys) = reconnectDelays xs @ reconnectDelays ys"
  by (induction xs rule: reconnectDelays.induct) simp_all

lemma failed_round:
  assumes "connectAttempts s = [d]" "reconnectTimers s = []"
  shows "connectAttempts (run P [ConnectFailed 0, ReconnectTimerFired 0] s)
           = [2 * min d MaxReconnectDelay]
       \<and> reconnectTimers (run P [ConnectFailed 0, ReconnectTimerFired 0] s) = []
       \<and> trace (run P [ConnectFailed 0, ReconnectTimerFired 0] s)
           = trace s @ [LogConnectionFailure (min d MaxReconnectDelay),
                        SetReconnectTimeout (min d MaxReconnectDelay), DeltaConnectionConnect]"
  using assms
  by (simp add: run_def connectFailed_def reconnectTimerFired_def connectCore_def observe_def
      removeAt_def Let_def)

lemma delay_arith_aux:
  fixes d x :: int
  assumes x: "1 \<le> x"
  shows "min (2 * min d 8000 * x) 8000 = min (d * (2 * x)) 8000"
proof (cases "d \<le> 8000")
  case True
  then have "min d 8000 = d" by simp
  then show ?thesis by (simp add: mult_ac)
next
  case False
  then have d: "8000 < d" by simp
  then have m: "min d 8000 = 8000" by simp
  have "8000 * 1 \<le> d * x"
    using d x by (intro mult_mono) auto
  then have a: "8000 \<le> d * (2 * x)" by simp
  have b: "(8000::int) \<le> 2 * 8000 * x" using x by simp
  have "min (2 * 8000 * x) 8000 = (8000::int)" using b by (rule min_absorb2)
  moreover have "min (d * (2 * x)) 8000 = 8000" using a by (rule min_absorb2)
  ultimately show ?thesis unfolding m by simp
qed

lemma delay_arith: "min (2 * min d 8000 * 2 ^ k) (8000::int) = min (d * (2 * 2 ^ k)) 8000"
  by (rule delay_arith_aux) simp

lemma failed_chain:
  "connectAttempts s = [d] \<Longrightarrow> reconnectTimers s = [] \<Longrightarrow>
   reconnectDelays (trace (run P (failedAttempts n) s))
     = reconnectDelays (trace s) @ map (\<lambda>k. min (d * 2 ^ k) MaxReconnectDelay) [0..<n]"
proof (induction n arbitrary: s d)
  case 0
  then show ?case by (simp add: failedAttempts_def run_def)
next
  case (Suc n)
  let ?s1 = "run P [ConnectFailed 0, ReconnectTimerFired 0] s"
  have r: "run P (failedAttempts (Suc n)) s = run P (failedAttempts n) ?s1"
    by (simp add: failedAttempts_def run_def)
  from failed_round [OF Suc.prems, of P]
  have a: "connectAttempts ?s1 = [2 * min d MaxReconnectDelay]"
    and t: "reconnectTimers ?s1 = []"
    and tr: "trace ?s1 = trace s @ [LogConnectionFailure (min d MaxReconnectDelay),
                        SetReconnectTimeout (min d MaxReconnectDelay), DeltaConnectionConnect]"
    by simp_all
  show ?case
    unfolding r Suc.IH [OF a t] tr
    by (simp add: reconnectDelays_append map_upt_Suc MaxReconnectDelay_def delay_arith
        del: upt_Suc)
qed

lemma connectedBrowser_fields:
  "clientType connectedBrowser = Browser" "connection connectedBrowser \<noteq> None"
  "connectAttempts connectedBrowser = []" "reconnectTimers connectedBrowser = []"
  "trace connectedBrowser = [DeltaConnectionConnect, EmitConnect]"
  by (simp_all add: connectedBrowser_def run_def connect_def connectCore_def connectSucceeded_def
      processInitialMessages_def DeltaManager_new_def observe_def removeAt_def Let_def)

text \<open>
  C8 (reconnect of a browser client). On a browser client with a connection and no
  other attempt under way, the "disconnect" event pauses and clears the outbound queue,
  emits "disconnect" with \<^verbatim>\<open>false\<close> and calls \<^verbatim>\<open>DeltaConnection.Connect\<close> at once. When the
  attempts keep failing, the \<open>k\<close>-th failure (from 0) sets the timer of the next attempt
  to \<open>min (InitialReconnectDelay * 2 ^ k) MaxReconnectDelay\<close>: 1000, 2000, 4000, 8000,
  8000 ms for the first five.
\<close>

theorem browser_reconnect_backoff:
  assumes "clientType s = Browser" "connection s \<noteq> None"
    "connectAttempts s = []" "reconnectTimers s = []"
  shows "outbound (step P OnDisconnect s) = clear (systemPause (outbound s))
       \<and> paused (outbound (step P OnDisconnect s))
       \<and> items (outbound (step P OnDisconnect s)) = []
       \<and> trace (step P OnDisconnect s) = trace s @ [EmitDisconnect False, DeltaConnectionConnect]
       \<and> reconnectDelays (trace (run P (OnDisconnect # failedAttempts n) s))
           = reconnectDelays (trace s)
             @ map (\<lambda>k. min (InitialReconnectDelay * 2 ^ k) MaxReconnectDelay) [0..<n]
       \<and> reconnectDelays (trace (run P (OnDisconnect # failedAttempts 5) s))
           = reconnectDelays (trace s) @ [1000, 2000, 4000, 8000, 8000]"
proof -
  let ?s1 = "step P OnDisconnect s"
  have s1: "?s1 = connectCore InitialReconnectDelay
                    (observe (EmitDisconnect False)
                       (s\<lparr>outbound := clear (systemPause (outbound s))\<rparr>))"
    using assms by (auto simp: connected_def on_disconnect_def lostConnection_def Let_def)
  have a: "connectAttempts ?s1 = [InitialReconnectDelay]" and t: "reconnectTimers ?s1 = []"
    and tr: "trace ?s1 = trace s @ [EmitDisconnect False, DeltaConnectionConnect]"
    and ob: "outbound ?s1 = clear (systemPause (outbound s))"
    unfolding s1 using assms by (simp_all add: connectCore_def observe_def)
  have r: "\<And>m. run P (OnDisconnect # failedAttempts m) s = run P (failedAttempts m) ?s1"
    by (simp add: run_def)
  have ch: "\<And>m. reconnectDelays (trace (run P (OnDisconnect # failedAttempts m) s))
           = reconnectDelays (trace s)
             @ map (\<lambda>k. min (InitialReconnectDelay * 2 ^ k) MaxReconnectDelay) [0..<m]"
    unfolding r failed_chain [OF a t] tr by (simp add: reconnectDelays_append)
  have five: "map (\<lambda>k. min (InitialReconnectDelay * 2 ^ k) MaxReconnectDelay) [0..<5]
                = [1000, 2000, 4000, 8000, 8000]"
    by (simp add: upt_rec InitialReconnectDelay_def MaxReconnectDelay_def)
  show ?thesis
    using ch [of n] ch [of 5] five tr ob
    by (simp add: clear_def systemPause_def paused_def)
qed

theorem browser_reconnect_backoff_witness:
  "clientType connectedBrowser = Browser \<and> connection connectedBrowser \<noteq> None
   \<and> connectAttempts connectedBrowser = [] \<and> reconnectTimers connectedBrowser = []
   \<and> reconnectDelays (trace (run JSON_sample (OnDisconnect # failedAttempts 5) connectedBrowser))
        = [1000, 2000, 4000, 8000, 8000]
   \<and> paused (outbound (step JSON_sample OnDisconnect connectedBrowser))"
  using browser_reconnect_backoff [OF connectedBrowser_fields(1-4), of JSON_sample 0]
    connectedBrowser_fields
  by (simp add: paused_def clear_def systemPause_def)

subsection \<open>Readonly clients\<close>

lemma fold_frame:
  assumes "\<And>x s. g (f x s) = g s"
  shows "g (fold f xs s) = g s"
  by (induction xs arbitrary: s) (simp_all add: assms)

lemma ack_updates [simp]:
  "ack (clientType_update f0 s) = ack s"
  "ack (pending_update f1 s) = ack s"
  "ack (fetching_update f2 s) = ack s"
  "ack (minSequenceNumber_update f3 s) = ack s"
  "ack (lastQueuedSequenceNumber_update f4 s) = ack s"
  "ack (largestSequenceNumber_update f5 s) = ack s"
  "ack (baseSequenceNumber_update f6 s) = ack s"
  "ack (inbound_update f7 s) = ack s"
  "ack (inboundSignal_update f8 s) = ack s"
  "ack (connecting_update f9 s) = ack s"
  "ack (connection_update f10 s) = ack s"
  "ack (closed_update f11 s) = ack s"
  "ack (handler_update f12 s) = ack s"
  "ack (contentCache_update f13 s) = ack s"
  "ack (lateContentHandlers_update f14 s) = ack s"
  "ack (getDeltasCalls_update f15 s) = ack s"
  "ack (inboundStage_update f16 s) = ack s"
  "ack (inboundResumeOnce_update f17 s) = ack s"
  "ack (signalResumeOnce_update f18 s) = ack s"
  "ack (connectAttempts_update f19 s) = ack s"
  "ack (reconnectTimers_update f20 s) = ack s"
  "ack (trace_update f21 s) = ack s"
  by (simp_all add: ack_def)

lemma ack_observe [simp]: "ack (observe e s) = ack s"
  by (simp add: ack_def observe_def)

lemma ack_getDeltas [simp]: "ack (getDeltas p r f t s) = ack s"
  by (simp add: getDeltas_def ack_def observe_def)

lemma ack_fetchMissingDeltas [simp]: "ack (fetchMissingDeltas r f t s) = ack s"
  by (simp add: fetchMissingDeltas_def)

lemma ack_handleOutOfOrderMessage [simp]: "ack (handleOutOfOrderMessage m s) = ack s"
  by (simp add: handleOutOfOrderMessage_def split: option.splits)

lemma ack_enqueueMessage [simp]: "ack (enqueueMessage m s) = ack s"
  by (simp add: enqueueMessage_def Let_def split: option.splits)

lemma ack_enqueueMessages [simp]: "ack (enqueueMessages ms s) = ack s"
  unfolding enqueueMessages_def by (rule fold_frame) simp

lemma ack_catchUp [simp]: "ack (catchUp r ms s) = ack s"
  by (simp add: catchUp_def Let_def)

lemma ack_inboundFailed [simp]: "ack (inboundFailed s) = ack s"
  by (simp add: inboundFailed_def)

lemma ack_escaped [simp]: "ack (escaped e op s) = ack s"
  by (simp add: escaped_def)

lemma ack_lateContentHandler [simp]: "ack (lateContentHandler c h s) = ack s"
  by (simp add: lateContentHandler_def ack_def split: prod.splits option.splits)

lemma ack_contentCache_set [simp]: "ack (contentCache_set c s) = ack s"
proof -
  have "ack (fold (lateContentHandler (cClientId c)) hs s') = ack s'" for hs s'
    by (rule fold_frame) simp
  then show ?thesis by (simp add: contentCache_set_def Let_def)
qed

lemma ack_fetchContent [simp]: "ack (fetchContent p op s) = ack s"
  by (simp add: fetchContent_def)

lemma ack_waitForContent [simp]: "ack (waitForContent op s) = ack s"
  by (simp add: waitForContent_def)

lemma ack_processInboundOp [simp]: "ack (processInboundOp P op s) = ack s"
  by (simp add: processInboundOp_def processMessage_def split: option.splits)

lemma ack_mergeAndProcess [simp]: "ack (mergeAndProcess P op c s) = ack s"
  by (simp add: mergeAndProcess_def)

lemma ack_handleOpContent [simp]: "ack (handleOpContent P op s) = ack s"
  by (simp add: handleOpContent_def Let_def split: option.splits prod.splits)

lemma ack_getDeltas_resolved [simp]: "ack (getDeltas_resolved P p ms s) = ack s"
  by (simp add: getDeltas_resolved_def split: purpose.splits sum.splits)

lemma ack_getDeltas_rejected [simp]: "ack (getDeltas_rejected p s) = ack s"
  by (simp add: getDeltas_rejected_def split: purpose.splits)

lemma ack_storageAnswer [simp]: "ack (storageAnswer P i a s) = ack s"
  by (simp add: storageAnswer_def Let_def split: prod.splits round_result.splits)

lemma ack_emptyResultDelivered [simp]: "ack (emptyResultDelivered P i s) = ack s"
  by (simp add: emptyResultDelivered_def)

lemma ack_inboundWorker [simp]: "ack (inboundWorker P s) = ack s"
  by (simp add: inboundWorker_def Let_def split: list.splits)

lemma updateSequenceNumber_readonly: "readonly s \<Longrightarrow> updateSequenceNumber ty s = s"
  by (simp add: updateSequenceNumber_def)

lemma ack_processMessage_prepared:
  "readonly s \<Longrightarrow> ack (processMessage_prepared m s) = ack s"
  by (simp add: processMessage_prepared_def Let_def updateSequenceNumber_readonly observe_def)

lemma ack_prepareResolved: "readonly s \<Longrightarrow> ack (prepareResolved s) = ack s"
  by (simp add: prepareResolved_def ack_processMessage_prepared split: option.splits stage.splits)

lemma ack_prepareRejected [simp]: "ack (prepareRejected s) = ack s"
  by (simp add: prepareRejected_def split: option.splits stage.splits)

lemma ack_postProcessResolved [simp]: "ack (postProcessResolved s) = ack s"
  by (simp add: postProcessResolved_def split: option.splits stage.splits)

lemma ack_postProcessRejected [simp]: "ack (postProcessRejected s) = ack s"
  by (simp add: postProcessRejected_def split: option.splits stage.splits)

lemma ack_signalWorker [simp]: "ack (signalWorker P s) = ack s"
  by (simp add: signalWorker_def Let_def split: list.splits option.splits)

lemma ack_connected: "(\<And>s. ack (f s) = ack s) \<Longrightarrow> ack (connected f s) = ack s"
  by (simp add: connected_def split: option.splits)

lemma ack_receiving:
  "receiving e \<Longrightarrow> readonly s \<Longrightarrow> ack (step P e s) = ack s"
  by (cases e) (simp_all add: ack_prepareResolved ack_connected on_op_def on_op_content_def
      on_signal_def)

lemma ack_timer:
  "updateSequenceNumberTimer s = None \<Longrightarrow> ackTimerFired s = s"
  by (simp add: ackTimerFired_def)

text \<open>
  C5 (readonly suppresses acks). Take a manager in readonly mode and any sequence of
  events by which messages of any type are received and processed (the events of the
  connection, the answers of storage, the steps of the workers), together with firings
  of the acknowledgement timer if that timer is not armed at the start, as after
  \<^verbatim>\<open>enableReadonlyMode\<close>. Then nothing is submitted: the outbound queue and the client
  sequence number are unchanged, the manager is still readonly, and the timer has not
  been armed.
\<close>

theorem readonly_suppresses_acks:
  assumes "readonly s"
    and "\<forall>e \<in> set es. receiving e \<or> (e = AckTimerFired \<and> updateSequenceNumberTimer s = None)"
  shows "outbound (run P es s) = outbound s
       \<and> clientSequenceNumber (run P es s) = clientSequenceNumber s
       \<and> readonly (run P es s)
       \<and> updateSequenceNumberTimer (run P es s) = updateSequenceNumberTimer s"
proof -
  have "ack (run P es s) = ack s" using assms
  proof (induction es arbitrary: s)
    case Nil
    then show ?case by (simp add: run_def)
  next
    case (Cons e es)
    have st: "ack (step P e s) = ack s"
    proof (cases "receiving e")
      case True
      then show ?thesis using Cons.prems(1) by (rule ack_receiving)
    next
      case False
      with Cons.prems(2) have "e = AckTimerFired" "updateSequenceNumberTimer s = None" by auto
      then show ?thesis by (simp add: ack_timer)
    qed
    then have ro: "readonly (step P e s)"
      and tm: "updateSequenceNumberTimer (step P e s) = updateSequenceNumberTimer s"
      using Cons.prems(1) by (simp_all add: ack_def)
    have "\<forall>e' \<in> set es. receiving e'
            \<or> (e' = AckTimerFired \<and> updateSequenceNumberTimer (step P e s) = None)"
      using Cons.prems(2) tm by auto
    from Cons.IH [OF ro this] st show ?case by (simp add: run_def)
  qed
  then show ?thesis using assms(1) by (simp add: ack_def)
qed

theorem readonly_suppresses_acks_witness:
  "readonly readonlyClient \<and> updateSequenceNumberTimer readonlyClient = None
   \<and> map sequenceNumber (processedMessages (trace (run JSON_sample fiveOperations readonlyClient)))
        = [1, 2, 3, 4, 5]
   \<and> map docType (items (outbound (run JSON_sample fiveOperations readonlyClient))) = [Operation]"
proof -
  have h1: "readonly readonlyClient" and h2: "updateSequenceNumberTimer readonlyClient = None"
    and ob: "map docType (items (outbound readonlyClient)) = [Operation]"
    by (simp_all add: readonlyClient_def model_defs)
  have h3: "\<forall>e \<in> set fiveOperations.
              receiving e \<or> (e = AckTimerFired \<and> updateSequenceNumberTimer readonlyClient = None)"
    using h2 by (simp add: fiveOperations_def)
  have tr: "map sequenceNumber (processedMessages (trace (run JSON_sample fiveOperations readonlyClient)))
        = [1, 2, 3, 4, 5]"
    by (simp add: readonlyClient_def fiveOperations_def model_defs)
  from readonly_suppresses_acks [OF h1 h3, of JSON_sample] h1 h2 ob tr show ?thesis by simp
qed

subsection \<open>Closing\<close>

lemma closed_observe [simp]: "closed (observe e s) = closed s"
  by (simp add: observe_def)

lemma closed_getDeltas [simp]: "closed (getDeltas p r f t s) = closed s"
  by (simp add: getDeltas_def)

lemma closed_fetchMissingDeltas [simp]: "closed (fetchMissingDeltas r f t s) = closed s"
  by (simp add: fetchMissingDeltas_def)

lemma closed_handleOutOfOrderMessage [simp]: "closed (handleOutOfOrderMessage m s) = closed s"
  by (simp add: handleOutOfOrderMessage_def split: option.splits)

lemma closed_enqueueMessage [simp]: "closed (enqueueMessage m s) = closed s"
  by (simp add: enqueueMessage_def Let_def split: option.splits)

lemma closed_enqueueMessages [simp]: "closed (enqueueMessages ms s) = closed s"
  unfolding enqueueMessages_def by (rule fold_frame) simp

lemma closed_catchUp [simp]: "closed (catchUp r ms s) = closed s"
  by (simp add: catchUp_def Let_def)

lemma closed_inboundFailed [simp]: "closed (inboundFailed s) = closed s"
  by (simp add: inboundFailed_def)

lemma closed_escaped [simp]: "closed (escaped e op s) = closed s"
  by (simp add: escaped_def)

lemma closed_lateContentHandler [simp]: "closed (lateContentHandler c h s) = closed s"
  by (simp add: lateContentHandler_def split: prod.splits option.splits)

lemma closed_contentCache_set [simp]: "closed (contentCache_set c s) = closed s"
proof -
  have "closed (fold (lateContentHandler (cClientId c)) hs s') = closed s'" for hs s'
    by (rule fold_frame) simp
  then show ?thesis by (simp add: contentCache_set_def Let_def)
qed

lemma closed_fetchContent [simp]: "closed (fetchContent p op s) = closed s"
  by (simp add: fetchContent_def)

lemma closed_waitForContent [simp]: "closed (waitForContent op s) = closed s"
  by (simp add: waitForContent_def)

lemma closed_processInboundOp [simp]: "closed (processInboundOp P op s) = closed s"
  by (simp add: processInboundOp_def processMessage_def split: option.splits)

lemma closed_mergeAndProcess [simp]: "closed (mergeAndProcess P op c s) = closed s"
  by (simp add: mergeAndProcess_def)

lemma closed_handleOpContent [simp]: "closed (handleOpContent P op s) = closed s"
  by (simp add: handleOpContent_def Let_def split: option.splits prod.splits)

lemma closed_getDeltas_resolved [simp]: "closed (getDeltas_resolved P p ms s) = closed s"
  by (simp add: getDeltas_resolved_def split: purpose.splits sum.splits)

lemma closed_getDeltas_rejected [simp]: "closed (getDeltas_rejected p s) = closed s"
  by (simp add: getDeltas_rejected_def split: purpose.splits)

lemma closed_storageAnswer [simp]: "closed (storageAnswer P i a s) = closed s"
  by (simp add: storageAnswer_def Let_def split: prod.splits round_result.splits)

lemma closed_emptyResultDelivered [simp]: "closed (emptyResultDelivered P i s) = closed s"
  by (simp add: emptyResultDelivered_def)

lemma closed_inboundWorker [simp]: "closed (inboundWorker P s) = closed s"
  by (simp add: inboundWorker_def Let_def split: list.splits)

lemma closed_submit [simp]: "closed (snd (submit ty c s)) = closed s"
  by (simp add: submit_def stopSequenceNumberUpdate_def Let_def)

lemma closed_updateSequenceNumber [simp]: "closed (updateSequenceNumber ty s) = closed s"
  by (simp add: updateSequenceNumber_def)

lemma closed_processMessage_prepared [simp]: "closed (processMessage_prepared m s) = closed s"
  by (simp add: processMessage_prepared_def Let_def)

lemma closed_prepareResolved [simp]: "closed (prepareResolved s) = closed s"
  by (simp add: prepareResolved_def split: option.splits stage.splits)

lemma closed_prepareRejected [simp]: "closed (prepareRejected s) = closed s"
  by (simp add: prepareRejected_def split: option.splits stage.splits)

lemma closed_postProcessResolved [simp]: "closed (postProcessResolved s) = closed s"
  by (simp add: postProcessResolved_def split: option.splits stage.splits)

lemma closed_postProcessRejected [simp]: "closed (postProcessRejected s) = closed s"
  by (simp add: postProcessRejected_def split: option.splits stage.splits)

lemma closed_signalWorker [simp]: "closed (signalWorker P s) = closed s"
  by (simp add: signalWorker_def Let_def split: list.splits option.splits)

lemma closed_ackTimerFired [simp]: "closed (ackTimerFired s) = closed s"
  by (simp add: ackTimerFired_def Let_def split: option.splits)

lemma closed_connectCore [simp]: "closed (connectCore d s) = closed s"
  by (simp add: connectCore_def)

lemma closed_enqueInitalOps [simp]: "closed (enqueInitalOps ms cs s) = closed s"
proof -
  have "closed (fold contentCache_set cs s') = closed s'" for s'
    by (rule fold_frame) simp
  then show ?thesis by (simp add: enqueInitalOps_def Let_def)
qed

lemma closed_processInitialMessages [simp]:
  "closed (processInitialMessages ms cs sigs s) = closed s"
  by (simp add: processInitialMessages_def enqueInitalSignals_def Let_def)

lemma closed_inboundResumed [simp]: "closed (inboundResumed q s) = closed s"
proof -
  have "closed (fold (\<lambda>(messages, cs). enqueInitalOps messages cs) xs s') = closed s'" for xs s'
    by (rule fold_frame) (simp split: prod.splits)
  then show ?thesis by (simp add: inboundResumed_def)
qed

lemma closed_signalResumed [simp]: "closed (signalResumed q s) = closed s"
proof -
  have "closed (fold enqueInitalSignals xs s') = closed s'" for xs s'
    by (rule fold_frame) (simp add: enqueInitalSignals_def)
  then show ?thesis by (simp add: signalResumed_def)
qed

lemma closed_attachOpHandler [simp]: "closed (attachOpHandler n r s) = closed s"
  by (simp add: attachOpHandler_def Let_def)

lemma closed_lostConnection [simp]: "closed (lostConnection b s) = closed s"
  by (simp add: lostConnection_def Let_def)

lemma closed_step: "closed (step P e s) = (closed s \<or> e = Close)"
  by (cases e)
     (simp_all add: connected_def on_op_def on_op_content_def on_signal_def on_nack_def
        on_disconnect_def connect_def connectFailed_def reconnectTimerFired_def
        connectSucceeded_def enableReadonlyMode_def disableReadonlyMode_def
        stopSequenceNumberUpdate_def submitSignal_def close_def Let_def
        split: option.splits sum.splits)

lemma closed_run: "closed s \<Longrightarrow> closed (run P es s)"
  unfolding run_def by (induction es arbitrary: s) (simp_all add: closed_step)

text \<open>
  C7, as stated, fails: \<^verbatim>\<open>close()\<close> clears the queues but does not pause them, and the
  continuation of \<^verbatim>\<open>processMessage\<close> does not look at \<^verbatim>\<open>closed\<close>. Here message 1 has been
  handed to the worker and \<^verbatim>\<open>handler.prepare\<close> is pending when \<^verbatim>\<open>close()\<close> is called: the
  inbound queue is not paused afterwards, and when the promise resolves the handler's
  \<^verbatim>\<open>process\<close> and \<^verbatim>\<open>postProcess\<close> are called.
\<close>

theorem handler_called_after_close:
  "closed (close preparingFirst)
   \<and> \<not> paused (inbound (close preparingFirst))
   \<and> handlerCalls (trace (close preparingFirst)) = [HandlerPrepare (sequenced 1 Operation Null)]
   \<and> handlerCalls (trace (run JSON_sample [Close, PrepareResolved] preparingFirst))
       = [HandlerPrepare (sequenced 1 Operation Null), HandlerProcess (sequenced 1 Operation Null),
          HandlerPostProcess (sequenced 1 Operation Null)]"
  by (simp add: preparingFirst_def model_defs)

text \<open>
  C7 (amended). After \<^verbatim>\<open>close()\<close> the manager is closed and stays closed whatever
  happens next; the acknowledgement timer is cancelled (it cannot fire) and the update
  flag reset; the connection, if there is one, has been closed and the listeners of the
  manager removed; the three queues are cleared, their pause flags being left as they
  were; and every later call of \<^verbatim>\<open>getDeltas\<close> logs and returns \<^verbatim>\<open>[]\<close> at once, no request
  to storage being made for it. (Nothing is said of handler calls: a message already
  with the worker is still processed.)
\<close>

theorem close_effects:
  "closed (close s)
   \<and> updateSequenceNumberTimer (close s) = None \<and> \<not> updateHasBeenRequested (close s)
   \<and> ackTimerFired (close s) = close s
   \<and> trace (close s)
       = trace s @ (case connection s of None \<Rightarrow> [] | Some c \<Rightarrow> [ConnectionClose])
           @ [RemoveAllListeners]
   \<and> inbound (close s) = clear (inbound s)
   \<and> outbound (close s) = clear (outbound s)
   \<and> inboundSignal (close s) = clear (inboundSignal s)
   \<and> items (inbound (close s)) = [] \<and> items (outbound (close s)) = []
   \<and> items (inboundSignal (close s)) = []
   \<and> paused (inbound (close s)) = paused (inbound s)
   \<and> paused (outbound (close s)) = paused (outbound s)
   \<and> paused (inboundSignal (close s)) = paused (inboundSignal s)
   \<and> closed (run P es (close s))
   \<and> getDeltasCalls (getDeltas p r f t (run P es (close s)))
       = getDeltasCalls (run P es (close s)) @ [newCall p f t True]
   \<and> trace (getDeltas p r f t (run P es (close s)))
       = trace (run P es (close s)) @ [LogGetDeltasClosedConnection]
   \<and> storageAnswer P (length (getDeltasCalls (run P es (close s)))) a
        (getDeltas p r f t (run P es (close s))) = getDeltas p r f t (run P es (close s))"
proof -
  have c: "closed (close s)"
    by (simp add: close_def Let_def stopSequenceNumberUpdate_def split: option.splits)
  have cr: "closed (run P es (close s))" using c by (rule closed_run)
  have 1: "closed (close s)
   \<and> updateSequenceNumberTimer (close s) = None \<and> \<not> updateHasBeenRequested (close s)
   \<and> ackTimerFired (close s) = close s
   \<and> trace (close s)
       = trace s @ (case connection s of None \<Rightarrow> [] | Some c \<Rightarrow> [ConnectionClose])
           @ [RemoveAllListeners]
   \<and> inbound (close s) = clear (inbound s)
   \<and> outbound (close s) = clear (outbound s)
   \<and> inboundSignal (close s) = clear (inboundSignal s)"
    by (simp add: close_def Let_def stopSequenceNumberUpdate_def observe_def ackTimerFired_def
        split: option.splits)
  have 2: "getDeltasCalls (getDeltas p r f t (run P es (close s)))
       = getDeltasCalls (run P es (close s)) @ [newCall p f t True]
   \<and> trace (getDeltas p r f t (run P es (close s)))
       = trace (run P es (close s)) @ [LogGetDeltasClosedConnection]
   \<and> storageAnswer P (length (getDeltasCalls (run P es (close s)))) a
        (getDeltas p r f t (run P es (close s))) = getDeltas p r f t (run P es (close s))"
    using cr by (simp add: getDeltas_def observe_def storageAnswer_def newCall_def)
  show ?thesis using 1 2 cr by (simp add: clear_def paused_def)
qed

subsection \<open>Reordering\<close>

text \<open>The definitions unfolded to run the model on messages that are not given in full.\<close>

lemmas symbolic_defs =
  run_def connect_def connectCore_def connectSucceeded_def processInitialMessages_def
  enqueInitalOps_def enqueInitalSignals_def inboundResumed_def signalResumed_def
  attachOpHandler_def DeltaManager_new_def observe_def removeAt_def Let_def
  newQueue_def paused_def push_def clear_def pause_def resume_def systemPause_def
  systemResume_def drains_def connected_def on_op_def on_op_content_def on_signal_def
  enqueueMessages_def enqueueMessage_def handleOutOfOrderMessage_def fetchMissingDeltas_def
  getDeltas_def newCall_def catchUp_def inboundWorker_def processInboundOp_def
  processMessage_def processMessage_prepared_def
  updateSequenceNumber_def prepareResolved_def postProcessResolved_def
  storageAnswer_def getDeltas_resolved_def
  connectedBrowser_def attachedAt_def sequenced_def

lemma decodeContents_fields:
  assumes "decodeContents P m = Some d"
  shows "sequenceNumber d = sequenceNumber m" "minimumSequenceNumber d = minimumSequenceNumber m"
    "mtype d = mtype m" "traces d = traces m" "clientId d = clientId m"
  using assms by (auto simp: decodeContents_def split: contents.splits if_splits)

lemma addEndTrace_fields [simp]:
  "sequenceNumber (addEndTrace ct m) = sequenceNumber m"
  "minimumSequenceNumber (addEndTrace ct m) = minimumSequenceNumber m"
  "mtype (addEndTrace ct m) = mtype m" "contents (addEndTrace ct m) = contents m"
  by (simp_all add: addEndTrace_def)

lemma worker_round:
  assumes "items (inbound s) = m # rest" "\<not> paused (inbound s)" "\<not> stopped (inbound s)"
    and "\<not> busy (inbound s)"
    and "inboundStage s = None" "handler s" "readonly s"
    and "sequenceNumber m = baseSequenceNumber s + 1" "contents m \<noteq> Undefined"
    and "decodeContents P m = Some d"
  shows "run P [InboundWorker, PrepareResolved, PostProcessResolved] s
           = s\<lparr>inbound := (inbound s)\<lparr>items := rest\<rparr>,
               minSequenceNumber := minimumSequenceNumber m,
               baseSequenceNumber := sequenceNumber m,
               trace := trace s @ [HandlerPrepare d, HandlerProcess (addEndTrace (clientType s) d),
                                   EmitProcessTime,
                                   HandlerPostProcess (addEndTrace (clientType s) d)],
               inboundStage := None\<rparr>"
  using assms decodeContents_fields [OF assms(10)]
  by (simp add: run_def inboundWorker_def drains_def processInboundOp_def processMessage_def
      prepareResolved_def processMessage_prepared_def postProcessResolved_def
      updateSequenceNumber_def observe_def Let_def)

lemma processedMessages_append:
  "processedMessages (xs @ ys) = processedMessages xs @ processedMessages ys"
  by (induction xs rule: processedMessages.induct) simp_all

lemma storageRequests_append:
  "storageRequests (xs @ ys) = storageRequests xs @ storageRequests ys"
  by (induction xs rule: storageRequests.induct) simp_all

text \<open>
  C2 (reordering tolerance). A browser client has attached its handler at sequence
  number 0 and resumed the inbound queue. The connection delivers the messages 3, 1, 2
  (in one "op" event, or in three: the state is the same), messages that carry their
  contents, which decode. Message 3 opens a gap, for which one fetch is started; storage
  answers it with the messages 1 and 2. The worker then processes three messages: the
  handler's \<^verbatim>\<open>process\<close> is called with the (decoded) messages 1, 2, 3, in that order and
  once each; one request went to storage, for the range from 0 to 3; and in the end the
  base sequence number is 3, and neither the inbound queue nor \<open>pending\<close> holds a
  message, nor is a fetch in flight.
\<close>

theorem reordering_tolerance:
  assumes "sequenceNumber m1 = 1" "sequenceNumber m2 = 2" "sequenceNumber m3 = 3"
    and "contents m1 \<noteq> Undefined" "contents m2 \<noteq> Undefined" "contents m3 \<noteq> Undefined"
    and "decodeContents P m1 = Some d1" "decodeContents P m2 = Some d2"
        "decodeContents P m3 = Some d3"
  shows "processedMessages (trace (run P
           ([OnOp [m3, m1, m2], StorageAnswer 0 (GetReturns [m1, m2])] @ workerRounds 3)
           (attachedAt 0)))
         = map (addEndTrace Browser) [d1, d2, d3]
       \<and> map sequenceNumber (processedMessages (trace (run P
           ([OnOp [m3, m1, m2], StorageAnswer 0 (GetReturns [m1, m2])] @ workerRounds 3)
           (attachedAt 0)))) = [1, 2, 3]
       \<and> storageRequests (trace (run P
           ([OnOp [m3, m1, m2], StorageAnswer 0 (GetReturns [m1, m2])] @ workerRounds 3)
           (attachedAt 0))) = [(0, 3)]
       \<and> baseSequenceNumber (run P
           ([OnOp [m3, m1, m2], StorageAnswer 0 (GetReturns [m1, m2])] @ workerRounds 3)
           (attachedAt 0)) = 3
       \<and> items (inbound (run P
           ([OnOp [m3, m1, m2], StorageAnswer 0 (GetReturns [m1, m2])] @ workerRounds 3)
           (attachedAt 0))) = []
       \<and> pending (run P
           ([OnOp [m3, m1, m2], StorageAnswer 0 (GetReturns [m1, m2])] @ workerRounds 3)
           (attachedAt 0)) = []
       \<and> getDeltasCalls (run P
           ([OnOp [m3, m1, m2], StorageAnswer 0 (GetReturns [m1, m2])] @ workerRounds 3)
           (attachedAt 0)) = []
       \<and> run P ([OnOp [m3], OnOp [m1], OnOp [m2], StorageAnswer 0 (GetReturns [m1, m2])]
                  @ workerRounds 3) (attachedAt 0)
         = run P ([OnOp [m3, m1, m2], StorageAnswer 0 (GetReturns [m1, m2])] @ workerRounds 3)
             (attachedAt 0)"
proof -
  let ?round = "[InboundWorker, PrepareResolved, PostProcessResolved]"
  define s0 where "s0 = run P [OnOp [m3, m1, m2], StorageAnswer 0 (GetReturns [m1, m2])] (attachedAt 0)"
  define s1 where "s1 = run P ?round s0"
  define s2 where "s2 = run P ?round s1"
  define s3 where "s3 = run P ?round s2"
  have r: "run P ([OnOp [m3, m1, m2], StorageAnswer 0 (GetReturns [m1, m2])] @ workerRounds 3)
             (attachedAt 0) = s3"
    by (simp add: s3_def s2_def s1_def s0_def workerRounds_def numeral_3_eq_3 run_def)
  have v: "run P [OnOp [m3], OnOp [m1], OnOp [m2], StorageAnswer 0 (GetReturns [m1, m2])]
             (attachedAt 0) = s0"
    using assms(1-6) unfolding s0_def by (simp add: symbolic_defs round_defs)
  have r': "run P ([OnOp [m3], OnOp [m1], OnOp [m2], StorageAnswer 0 (GetReturns [m1, m2])]
                  @ workerRounds 3) (attachedAt 0) = s3"
    using v by (simp add: s3_def s2_def s1_def workerRounds_def numeral_3_eq_3 run_def)
  have f0: "items (inbound s0) = [m1, m2, m3]" "\<not> paused (inbound s0)" "\<not> stopped (inbound s0)"
    "\<not> busy (inbound s0)"
    "inboundStage s0 = None" "handler s0" "readonly s0" "baseSequenceNumber s0 = 0"
    "clientType s0 = Browser"
    "processedMessages (trace s0) = []" "storageRequests (trace s0) = [(0, 3)]"
    "pending s0 = []" "getDeltasCalls s0 = []"
    using assms(1-6) unfolding s0_def by (simp_all add: symbolic_defs round_defs)
  have e1: "s1 = s0\<lparr>inbound := (inbound s0)\<lparr>items := [m2, m3]\<rparr>,
               minSequenceNumber := minimumSequenceNumber m1,
               baseSequenceNumber := sequenceNumber m1,
               trace := trace s0 @ [HandlerPrepare d1, HandlerProcess (addEndTrace (clientType s0) d1),
                                   EmitProcessTime,
                                   HandlerPostProcess (addEndTrace (clientType s0) d1)],
               inboundStage := None\<rparr>"
    unfolding s1_def using f0 assms by (intro worker_round) simp_all
  have e2: "s2 = s1\<lparr>inbound := (inbound s1)\<lparr>items := [m3]\<rparr>,
               minSequenceNumber := minimumSequenceNumber m2,
               baseSequenceNumber := sequenceNumber m2,
               trace := trace s1 @ [HandlerPrepare d2, HandlerProcess (addEndTrace (clientType s1) d2),
                                   EmitProcessTime,
                                   HandlerPostProcess (addEndTrace (clientType s1) d2)],
               inboundStage := None\<rparr>"
    unfolding s2_def using f0 assms by (intro worker_round) (simp_all add: e1 paused_def)
  have e3: "s3 = s2\<lparr>inbound := (inbound s2)\<lparr>items := []\<rparr>,
               minSequenceNumber := minimumSequenceNumber m3,
               baseSequenceNumber := sequenceNumber m3,
               trace := trace s2 @ [HandlerPrepare d3, HandlerProcess (addEndTrace (clientType s2) d3),
                                   EmitProcessTime,
                                   HandlerPostProcess (addEndTrace (clientType s2) d3)],
               inboundStage := None\<rparr>"
    unfolding s3_def using f0 assms by (intro worker_round) (simp_all add: e2 e1 paused_def)
  show ?thesis
    unfolding r r' using f0 assms decodeContents_fields(1) [OF assms(7)]
      decodeContents_fields(1) [OF assms(8)] decodeContents_fields(1) [OF assms(9)]
    by (simp add: e3 e2 e1 processedMessages_append storageRequests_append)
qed

theorem reordering_tolerance_witness:
  "decodeContents JSON_sample (sequenced 1 Operation (Text ''a'')) = Some (sequenced 1 Operation (Structured ''a''))
   \<and> processedMessages (trace (run JSON_sample
           ([OnOp [sequenced 3 Operation Null, sequenced 1 Operation (Text ''a''),
                   sequenced 2 Propose (Structured ''b'')],
             StorageAnswer 0 (GetReturns [sequenced 1 Operation (Text ''a''),
                                          sequenced 2 Propose (Structured ''b'')])]
            @ workerRounds 3)
           (attachedAt 0)))
      = [sequenced 1 Operation (Structured ''a''), sequenced 2 Propose (Structured ''b''),
         sequenced 3 Operation Null]"
proof -
  have h: "sequenceNumber (sequenced 1 Operation (Text ''a'')) = 1"
    "sequenceNumber (sequenced 2 Propose (Structured ''b'')) = 2"
    "sequenceNumber (sequenced 3 Operation Null) = 3"
    "contents (sequenced 1 Operation (Text ''a'')) \<noteq> Undefined"
    "contents (sequenced 2 Propose (Structured ''b'')) \<noteq> Undefined"
    "contents (sequenced 3 Operation Null) \<noteq> Undefined"
    "decodeContents JSON_sample (sequenced 1 Operation (Text ''a''))
       = Some (sequenced 1 Operation (Structured ''a''))"
    "decodeContents JSON_sample (sequenced 2 Propose (Structured ''b''))
       = Some (sequenced 2 Propose (Structured ''b''))"
    "decodeContents JSON_sample (sequenced 3 Operation Null) = Some (sequenced 3 Operation Null)"
    by (simp_all add: sequenced_def decodeContents_def JSON_sample_def)
  have t: "addEndTrace Browser (sequenced n ty c) = sequenced n ty c" for n ty c
    by (simp add: addEndTrace_def sequenced_def)
  from reordering_tolerance [OF h] h(7) show ?thesis by (simp add: t)
qed

subsection \<open>Late content\<close>

lemmas content_defs = handleOpContent_def waitForContent_def fetchContent_def
  contentCache_set_def lateContentHandler_def cache_peek_def cache_get_def cache_set_def
  DefaultContentBufferSize_def

text \<open>
  C3 at the input where it fails. Envelope 13 of client A has come without contents and
  the cache has none for A: \<^verbatim>\<open>waitForContent\<close> has registered its listener and started
  \<^verbatim>\<open>fetchContent\<close>. Now the content arrives on the "op-content" channel, before storage has
  answered. The listener removes itself and takes the content out of the cache, but
  what it returns is lost: the worker is still waiting for the contents of envelope
  13, the call to storage is still outstanding, the cache no longer has the payload,
  and no handler call is made, also when the events of the worker follow.
\<close>

theorem late_content_discarded:
  "cache_peek ''A'' (contentCache awaitingContent) = None
   \<and> lateContentHandlers awaitingContent = [(''A'', 13, 13)]
   \<and> map purpose (getDeltasCalls awaitingContent)
       = [ForWaitForContent (sequenced 13 Operation Undefined)]
   \<and> inboundStage (step JSON_sample (OnOpContent lateContent) awaitingContent)
       = Some (AwaitContent (sequenced 13 Operation Undefined))
   \<and> lateContentHandlers (step JSON_sample (OnOpContent lateContent) awaitingContent) = []
   \<and> cache_peek ''A'' (contentCache (step JSON_sample (OnOpContent lateContent) awaitingContent))
       = None
   \<and> map purpose (getDeltasCalls (step JSON_sample (OnOpContent lateContent) awaitingContent))
       = [ForWaitForContent (sequenced 13 Operation Undefined)]
   \<and> handlerCalls (trace (run JSON_sample
        [OnOpContent lateContent, InboundWorker, PrepareResolved, PostProcessResolved]
        awaitingContent)) = []"
  by (simp add: awaitingContent_def lateContent_def model_defs content_defs)

subsection \<open>The flag of the gap fill\<close>

lemma catchUpCalls_updates [simp]:
  "catchUpCalls (clientType_update f0 s) = catchUpCalls s"
  "catchUpCalls (pending_update f1 s) = catchUpCalls s"
  "catchUpCalls (updateHasBeenRequested_update f2 s) = catchUpCalls s"
  "catchUpCalls (updateSequenceNumberTimer_update f3 s) = catchUpCalls s"
  "catchUpCalls (readonly_update f4 s) = catchUpCalls s"
  "catchUpCalls (minSequenceNumber_update f5 s) = catchUpCalls s"
  "catchUpCalls (lastQueuedSequenceNumber_update f6 s) = catchUpCalls s"
  "catchUpCalls (largestSequenceNumber_update f7 s) = catchUpCalls s"
  "catchUpCalls (baseSequenceNumber_update f8 s) = catchUpCalls s"
  "catchUpCalls (inbound_update f9 s) = catchUpCalls s"
  "catchUpCalls (inboundSignal_update f10 s) = catchUpCalls s"
  "catchUpCalls (outbound_update f11 s) = catchUpCalls s"
  "catchUpCalls (connecting_update f12 s) = catchUpCalls s"
  "catchUpCalls (connection_update f13 s) = catchUpCalls s"
  "catchUpCalls (clientSequenceNumber_update f14 s) = catchUpCalls s"
  "catchUpCalls (closed_update f15 s) = catchUpCalls s"
  "catchUpCalls (handler_update f16 s) = catchUpCalls s"
  "catchUpCalls (contentCache_update f17 s) = catchUpCalls s"
  "catchUpCalls (lateContentHandlers_update f18 s) = catchUpCalls s"
  "catchUpCalls (inboundStage_update f19 s) = catchUpCalls s"
  "catchUpCalls (inboundResumeOnce_update f20 s) = catchUpCalls s"
  "catchUpCalls (signalResumeOnce_update f21 s) = catchUpCalls s"
  "catchUpCalls (connectAttempts_update f22 s) = catchUpCalls s"
  "catchUpCalls (reconnectTimers_update f23 s) = catchUpCalls s"
  "catchUpCalls (trace_update f24 s) = catchUpCalls s"
  "catchUpCalls (fetching_update f25 s) = catchUpCalls s"
  by (simp_all add: catchUpCalls_def)

lemma fold_frame_cond:
  assumes "\<And>x s. I s \<Longrightarrow> I (f x s) \<and> g (f x s) = g s" and "I s"
  shows "I (fold f xs s) \<and> g (fold f xs s) = g s"
  using assms(2) by (induction xs arbitrary: s) (simp_all add: assms(1))

lemma gap_observe [simp]:
  "fetching (observe e s) = fetching s" "catchUpCalls (observe e s) = catchUpCalls s"
  by (simp_all add: observe_def)

lemma gap_inboundFailed [simp]:
  "fetching (inboundFailed s) = fetching s" "catchUpCalls (inboundFailed s) = catchUpCalls s"
  by (simp_all add: inboundFailed_def)

lemma gap_escaped [simp]:
  "fetching (escaped e op s) = fetching s" "catchUpCalls (escaped e op s) = catchUpCalls s"
  by (simp_all add: escaped_def)

lemma gap_lateContentHandler [simp]:
  "fetching (lateContentHandler c h s) = fetching s" "catchUpCalls (lateContentHandler c h s) = catchUpCalls s"
  by (simp_all add: lateContentHandler_def split: prod.splits option.splits)

lemma gap_stopSequenceNumberUpdate [simp]:
  "fetching (stopSequenceNumberUpdate s) = fetching s" "catchUpCalls (stopSequenceNumberUpdate s) = catchUpCalls s"
  by (simp_all add: stopSequenceNumberUpdate_def)

lemma gap_updateSequenceNumber [simp]:
  "fetching (updateSequenceNumber ty s) = fetching s" "catchUpCalls (updateSequenceNumber ty s) = catchUpCalls s"
  by (simp_all add: updateSequenceNumber_def submit_def Let_def)

lemma gap_processMessage_prepared [simp]:
  "fetching (processMessage_prepared m s) = fetching s" "catchUpCalls (processMessage_prepared m s) = catchUpCalls s"
  by (simp_all add: processMessage_prepared_def Let_def)

lemma gap_processInboundOp [simp]:
  "fetching (processInboundOp P op s) = fetching s" "catchUpCalls (processInboundOp P op s) = catchUpCalls s"
  by (simp_all add: processInboundOp_def processMessage_def split: option.splits)

lemma gap_mergeAndProcess [simp]:
  "fetching (mergeAndProcess P op c s) = fetching s" "catchUpCalls (mergeAndProcess P op c s) = catchUpCalls s"
  by (simp_all add: mergeAndProcess_def)

lemma gap_prepareResolved [simp]:
  "fetching (prepareResolved s) = fetching s" "catchUpCalls (prepareResolved s) = catchUpCalls s"
  by (simp_all add: prepareResolved_def split: option.splits stage.splits)

lemma gap_prepareRejected [simp]:
  "fetching (prepareRejected s) = fetching s" "catchUpCalls (prepareRejected s) = catchUpCalls s"
  by (simp_all add: prepareRejected_def split: option.splits stage.splits)

lemma gap_postProcessResolved [simp]:
  "fetching (postProcessResolved s) = fetching s" "catchUpCalls (postProcessResolved s) = catchUpCalls s"
  by (simp_all add: postProcessResolved_def split: option.splits stage.splits)

lemma gap_postProcessRejected [simp]:
  "fetching (postProcessRejected s) = fetching s" "catchUpCalls (postProcessRejected s) = catchUpCalls s"
  by (simp_all add: postProcessRejected_def split: option.splits stage.splits)

lemma gap_signalWorker [simp]:
  "fetching (signalWorker P s) = fetching s" "catchUpCalls (signalWorker P s) = catchUpCalls s"
  by (simp_all add: signalWorker_def Let_def split: list.splits option.splits)

lemma gap_ackTimerFired [simp]:
  "fetching (ackTimerFired s) = fetching s" "catchUpCalls (ackTimerFired s) = catchUpCalls s"
  by (simp_all add: ackTimerFired_def submit_def Let_def split: option.splits)

lemma gap_connectCore [simp]:
  "fetching (connectCore d s) = fetching s" "catchUpCalls (connectCore d s) = catchUpCalls s"
  by (simp_all add: connectCore_def)

lemma gap_connect [simp]:
  "fetching (connect s) = fetching s" "catchUpCalls (connect s) = catchUpCalls s"
  by (simp_all add: connect_def)

lemma gap_connectFailed [simp]:
  "fetching (connectFailed i s) = fetching s" "catchUpCalls (connectFailed i s) = catchUpCalls s"
  by (simp_all add: connectFailed_def Let_def)

lemma gap_reconnectTimerFired [simp]:
  "fetching (reconnectTimerFired j s) = fetching s" "catchUpCalls (reconnectTimerFired j s) = catchUpCalls s"
  by (simp_all add: reconnectTimerFired_def)

lemma gap_enqueInitalSignals [simp]:
  "fetching (enqueInitalSignals sigs s) = fetching s" "catchUpCalls (enqueInitalSignals sigs s) = catchUpCalls s"
  by (simp_all add: enqueInitalSignals_def)

lemma gap_lostConnection [simp]:
  "fetching (lostConnection b s) = fetching s" "catchUpCalls (lostConnection b s) = catchUpCalls s"
  by (simp_all add: lostConnection_def Let_def)

lemma gap_enableReadonlyMode [simp]:
  "fetching (enableReadonlyMode s) = fetching s" "catchUpCalls (enableReadonlyMode s) = catchUpCalls s"
  by (simp_all add: enableReadonlyMode_def)

lemma gap_disableReadonlyMode [simp]:
  "fetching (disableReadonlyMode s) = fetching s" "catchUpCalls (disableReadonlyMode s) = catchUpCalls s"
  by (simp_all add: disableReadonlyMode_def)

lemma gap_close [simp]:
  "fetching (close s) = fetching s" "catchUpCalls (close s) = catchUpCalls s"
  by (simp_all add: close_def Let_def split: option.splits)

lemma gap_submit [simp]:
  "fetching (snd (submit ty c s)) = fetching s"
  "catchUpCalls (snd (submit ty c s)) = catchUpCalls s"
  by (simp_all add: submit_def Let_def)

lemma gap_getDeltas [simp]:
  "fetching (getDeltas p r f t s) = fetching s"
  "\<not> forCatchUp p \<Longrightarrow> catchUpCalls (getDeltas p r f t s) = catchUpCalls s"
  by (simp_all add: getDeltas_def catchUpCalls_def observe_def newCall_def)

lemma gap_fetchMissingDeltas [simp]:
  "fetching s \<Longrightarrow> fetching (fetchMissingDeltas r f t s)"
  "fetching s \<Longrightarrow> catchUpCalls (fetchMissingDeltas r f t s) = catchUpCalls s"
  by (simp_all add: fetchMissingDeltas_def)

lemma gap_handleOutOfOrderMessage [simp]:
  "fetching s \<Longrightarrow> fetching (handleOutOfOrderMessage m s)"
  "fetching s \<Longrightarrow> catchUpCalls (handleOutOfOrderMessage m s) = catchUpCalls s"
  by (simp_all add: handleOutOfOrderMessage_def split: option.splits)

lemma gap_enqueueMessage [simp]:
  "fetching s \<Longrightarrow> fetching (enqueueMessage m s)"
  "fetching s \<Longrightarrow> catchUpCalls (enqueueMessage m s) = catchUpCalls s"
  by (simp_all add: enqueueMessage_def Let_def split: option.splits)

lemma gap_enqueueMessages':
  "fetching s \<Longrightarrow> fetching (enqueueMessages ms s)
     \<and> catchUpCalls (enqueueMessages ms s) = catchUpCalls s"
  unfolding enqueueMessages_def by (rule fold_frame_cond) simp_all

lemma gap_enqueueMessages [simp]:
  "fetching s \<Longrightarrow> fetching (enqueueMessages ms s)"
  "fetching s \<Longrightarrow> catchUpCalls (enqueueMessages ms s) = catchUpCalls s"
  by (simp_all add: gap_enqueueMessages')

lemma gap_catchUp [simp]:
  "fetching s \<Longrightarrow> fetching (catchUp r ms s)"
  "fetching s \<Longrightarrow> catchUpCalls (catchUp r ms s) = catchUpCalls s"
  by (simp_all add: catchUp_def Let_def)

lemma gap_contentCache_set [simp]:
  "fetching (contentCache_set c s) = fetching s"
  "catchUpCalls (contentCache_set c s) = catchUpCalls s"
proof -
  have "fetching (fold (lateContentHandler (cClientId c)) hs s') = fetching s'" for hs s'
    by (rule fold_frame) simp
  moreover have "catchUpCalls (fold (lateContentHandler (cClientId c)) hs s') = catchUpCalls s'"
    for hs s'
    by (rule fold_frame) simp
  ultimately show "fetching (contentCache_set c s) = fetching s"
    "catchUpCalls (contentCache_set c s) = catchUpCalls s"
    by (simp_all add: contentCache_set_def Let_def)
qed

lemma gap_fetchContent [simp]:
  "fetching (fetchContent p op s) = fetching s"
  "\<not> forCatchUp p \<Longrightarrow> catchUpCalls (fetchContent p op s) = catchUpCalls s"
  by (simp_all add: fetchContent_def)

lemma gap_waitForContent [simp]:
  "fetching (waitForContent op s) = fetching s"
  "catchUpCalls (waitForContent op s) = catchUpCalls s"
  by (simp_all add: waitForContent_def)

lemma gap_handleOpContent [simp]:
  "fetching (handleOpContent P op s) = fetching s"
  "catchUpCalls (handleOpContent P op s) = catchUpCalls s"
  by (simp_all add: handleOpContent_def Let_def split: option.splits prod.splits)

lemma gap_inboundWorker [simp]:
  "fetching (inboundWorker P s) = fetching s"
  "catchUpCalls (inboundWorker P s) = catchUpCalls s"
  by (simp_all add: inboundWorker_def Let_def split: list.splits)

lemma gap_getDeltas_rejected [simp]:
  "fetching (getDeltas_rejected p s) = fetching s"
  "catchUpCalls (getDeltas_rejected p s) = catchUpCalls s"
  by (simp_all add: getDeltas_rejected_def split: purpose.splits)

lemma gap_getDeltas_resolved [simp]:
  "\<not> forCatchUp p \<Longrightarrow> fetching (getDeltas_resolved P p ms s) = fetching s"
  "\<not> forCatchUp p \<Longrightarrow> catchUpCalls (getDeltas_resolved P p ms s) = catchUpCalls s"
  by (cases p; simp add: getDeltas_resolved_def split: sum.splits)+

lemma gap_enqueInitalOps [simp]:
  "fetching s \<Longrightarrow> fetching (enqueInitalOps ms cs s)"
  "fetching s \<Longrightarrow> catchUpCalls (enqueInitalOps ms cs s) = catchUpCalls s"
proof -
  have "fetching (fold contentCache_set cs s') = fetching s'" for s'
    by (rule fold_frame) simp
  moreover have "catchUpCalls (fold contentCache_set cs s') = catchUpCalls s'" for s'
    by (rule fold_frame) simp
  ultimately show "fetching s \<Longrightarrow> fetching (enqueInitalOps ms cs s)"
    "fetching s \<Longrightarrow> catchUpCalls (enqueInitalOps ms cs s) = catchUpCalls s"
    by (simp_all add: enqueInitalOps_def Let_def)
qed

lemma gap_processInitialMessages [simp]:
  "fetching s \<Longrightarrow> fetching (processInitialMessages ms cs sigs s)"
  "fetching s \<Longrightarrow> catchUpCalls (processInitialMessages ms cs sigs s) = catchUpCalls s"
  by (simp_all add: processInitialMessages_def Let_def)

lemma gap_inboundResumed' :
  "fetching s \<Longrightarrow> fetching (fold (\<lambda>(messages, cs). enqueInitalOps messages cs) xs s)
     \<and> catchUpCalls (fold (\<lambda>(messages, cs). enqueInitalOps messages cs) xs s) = catchUpCalls s"
  by (rule fold_frame_cond) (simp_all split: prod.splits)

lemma gap_inboundResumed [simp]:
  "fetching s \<Longrightarrow> fetching (inboundResumed q s)"
  "fetching s \<Longrightarrow> catchUpCalls (inboundResumed q s) = catchUpCalls s"
  using gap_inboundResumed' [of "s\<lparr>inboundResumeOnce := []\<rparr>" "inboundResumeOnce s"]
  by (simp_all add: inboundResumed_def)

lemma gap_signalResumed [simp]:
  "fetching (signalResumed q s) = fetching s"
  "catchUpCalls (signalResumed q s) = catchUpCalls s"
proof -
  have "fetching (fold enqueInitalSignals xs s') = fetching s'" for xs s'
    by (rule fold_frame) simp
  moreover have "catchUpCalls (fold enqueInitalSignals xs s') = catchUpCalls s'" for xs s'
    by (rule fold_frame) simp
  ultimately show "fetching (signalResumed q s) = fetching s"
    "catchUpCalls (signalResumed q s) = catchUpCalls s"
    by (simp_all add: signalResumed_def)
qed

lemma gap_connectSucceeded [simp]:
  "fetching s \<Longrightarrow> fetching (connectSucceeded i c ms cs sigs s)"
  "fetching s \<Longrightarrow> catchUpCalls (connectSucceeded i c ms cs sigs s) = catchUpCalls s"
  by (simp_all add: connectSucceeded_def Let_def)

lemma gap_attachOpHandler [simp]:
  "fetching s \<Longrightarrow> fetching (attachOpHandler n r s)"
  "fetching s \<Longrightarrow> catchUpCalls (attachOpHandler n r s) = catchUpCalls s"
  by (simp_all add: attachOpHandler_def Let_def)

lemma round_purpose:
  "getDeltas_round a c = (Continues c', es) \<Longrightarrow> purpose c' = purpose c"
  by (auto simp: getDeltas_round_def endOfRound_def Let_def
      split: storage_answer.splits if_splits prod.splits)

lemma filter_removeAt_same:
  "i < length xs \<Longrightarrow> \<not> Q (xs ! i) \<Longrightarrow> filter Q (removeAt i xs) = filter Q xs"
proof -
  assume a: "i < length xs" "\<not> Q (xs ! i)"
  have "filter Q xs = filter Q (take i xs @ xs ! i # drop (Suc i) xs)"
    using a(1) by (simp add: id_take_nth_drop [symmetric])
  then show ?thesis using a(2) by (simp add: removeAt_def)
qed

lemma filter_update_same:
  "i < length xs \<Longrightarrow> \<not> Q (xs ! i) \<Longrightarrow> \<not> Q c \<Longrightarrow> filter Q (xs[i := c]) = filter Q xs"
proof -
  assume a: "i < length xs" "\<not> Q (xs ! i)" "\<not> Q c"
  have "filter Q xs = filter Q (take i xs @ xs ! i # drop (Suc i) xs)"
    using a(1) by (simp add: id_take_nth_drop [symmetric])
  moreover have "xs[i := c] = take i xs @ c # drop (Suc i) xs"
    using a(1) by (simp add: upd_conv_take_nth_drop)
  ultimately show ?thesis using a(2,3) by simp
qed

lemma filter_removeAt_only:
  assumes "i < length xs" "filter Q xs = [xs ! i]"
  shows "filter Q (removeAt i xs) = []"
proof -
  have xs: "xs = take i xs @ xs ! i # drop (Suc i) xs"
    using assms(1) by (rule id_take_nth_drop)
  have q: "Q (xs ! i)"
  proof -
    have "xs ! i \<in> set (filter Q xs)" using assms(2) by simp
    then show ?thesis by simp
  qed
  have "filter Q xs = filter Q (take i xs) @ xs ! i # filter Q (drop (Suc i) xs)"
    using q by (subst xs) simp
  then have "length (filter Q xs)
      = length (filter Q (take i xs)) + 1 + length (filter Q (drop (Suc i) xs))"
    by simp
  moreover have "length (filter Q xs) = 1" by (simp add: assms(2))
  ultimately have "length (filter Q (take i xs)) = 0 \<and> length (filter Q (drop (Suc i) xs)) = 0"
    by linarith
  then have "filter Q (take i xs) = [] \<and> filter Q (drop (Suc i) xs) = []"
    by simp
  then show ?thesis by (simp add: removeAt_def)
qed

text \<open>A settled call that is not for catching up leaves the flag and the catch-up calls.\<close>

lemma gap_storageAnswer_other:
  assumes "i < length (getDeltasCalls s)" "\<not> forCatchUp (purpose (getDeltasCalls s ! i))"
  shows "fetching (storageAnswer P i a s) = fetching s
       \<and> catchUpCalls (storageAnswer P i a s) = catchUpCalls s"
proof (cases "returnedAtEntry (getDeltasCalls s ! i)")
  case True
  then show ?thesis by (simp add: storageAnswer_def)
next
  case False
  obtain r es where r: "getDeltas_round a (getDeltasCalls s ! i) = (r, es)" by fastforce
  show ?thesis
  proof (cases r)
    case (Returns ms)
    then show ?thesis
      using assms False r
      by (simp add: storageAnswer_def Let_def)
         (simp add: catchUpCalls_def filter_removeAt_same)
  next
    case Rejects
    then show ?thesis
      using assms False r
      by (simp add: storageAnswer_def Let_def)
         (simp add: catchUpCalls_def filter_removeAt_same)
  next
    case (Continues c')
    then have "\<not> forCatchUp (purpose c')" using round_purpose r assms(2) by metis
    then show ?thesis
      using assms False r Continues
      by (simp add: storageAnswer_def Let_def catchUpCalls_def filter_update_same)
  qed
qed

lemma gap_emptyResultDelivered_other:
  assumes "i < length (getDeltasCalls s)" "\<not> forCatchUp (purpose (getDeltasCalls s ! i))"
  shows "fetching (emptyResultDelivered P i s) = fetching s
       \<and> catchUpCalls (emptyResultDelivered P i s) = catchUpCalls s"
  using assms
  by (simp add: emptyResultDelivered_def) (simp add: catchUpCalls_def filter_removeAt_same)

text \<open>A call for catching up that does not return leaves the flag.\<close>

lemma storageAnswer_keeps_fetching:
  assumes "fetching s" "\<not> fetching (storageAnswer P i a s)"
  shows "i < length (getDeltasCalls s) \<and> forCatchUp (purpose (getDeltasCalls s ! i))
       \<and> (\<exists>ms es. getDeltas_round a (getDeltasCalls s ! i) = (Returns ms, es))"
proof -
  have i: "i < length (getDeltasCalls s)" "\<not> returnedAtEntry (getDeltasCalls s ! i)"
    using assms by (auto simp: storageAnswer_def split: if_splits)
  have p: "forCatchUp (purpose (getDeltasCalls s ! i))"
    using assms i(1) gap_storageAnswer_other by blast
  obtain r es where r: "getDeltas_round a (getDeltasCalls s ! i) = (r, es)" by fastforce
  have "\<exists>ms. r = Returns ms"
  proof (cases r)
    case (Returns ms)
    then show ?thesis by simp
  next
    case Rejects
    then show ?thesis using assms i r by (simp add: storageAnswer_def Let_def)
  next
    case (Continues c')
    then show ?thesis using assms i r by (simp add: storageAnswer_def Let_def)
  qed
  then show ?thesis using i p r by auto
qed

lemma emptyResultDelivered_keeps_fetching:
  assumes "fetching s" "\<not> fetching (emptyResultDelivered P i s)"
  shows "i < length (getDeltasCalls s) \<and> forCatchUp (purpose (getDeltasCalls s ! i))"
proof -
  have i: "i < length (getDeltasCalls s)"
    using assms by (auto simp: emptyResultDelivered_def split: if_splits)
  then show ?thesis using assms gap_emptyResultDelivered_other by blast
qed

lemma step_keeps_fetching:
  assumes "fetching s" "\<not> fetching (step P e s)"
  shows "\<exists>i < length (getDeltasCalls s). forCatchUp (purpose (getDeltasCalls s ! i))
           \<and> (e = EmptyResultDelivered i
              \<or> (\<exists>a ms es. e = StorageAnswer i a
                    \<and> getDeltas_round a (getDeltasCalls s ! i) = (Returns ms, es)))"
proof (cases e)
  case (StorageAnswer i a)
  then show ?thesis using assms storageAnswer_keeps_fetching [of s P i a] by auto
next
  case (EmptyResultDelivered i)
  then show ?thesis using assms emptyResultDelivered_keeps_fetching [of s P i] by auto
qed (use assms in \<open>simp_all add: connected_def on_op_def on_op_content_def on_signal_def
      on_nack_def on_disconnect_def submitSignal_def split: option.splits if_splits\<close>)

lemma latched_no_catchUp:
  "latched s \<Longrightarrow> i < length (getDeltasCalls s) \<Longrightarrow> \<not> forCatchUp (purpose (getDeltasCalls s ! i))"
  by (simp add: latched_def catchUpCalls_def filter_empty_conv)

lemma latched_step: "latched s \<Longrightarrow> latched (step P e s)"
proof (cases e)
  case (StorageAnswer i a)
  assume l: "latched s"
  show ?thesis
  proof (cases "i < length (getDeltasCalls s)")
    case True
    then show ?thesis
      using l StorageAnswer gap_storageAnswer_other [OF True latched_no_catchUp [OF l True]]
      by (simp add: latched_def)
  next
    case False
    then show ?thesis using l StorageAnswer by (simp add: storageAnswer_def)
  qed
next
  case (EmptyResultDelivered i)
  assume l: "latched s"
  show ?thesis
  proof (cases "i < length (getDeltasCalls s)")
    case True
    then show ?thesis
      using l EmptyResultDelivered
        gap_emptyResultDelivered_other [OF True latched_no_catchUp [OF l True]]
      by (simp add: latched_def)
  next
    case False
    then show ?thesis using l EmptyResultDelivered by (simp add: emptyResultDelivered_def)
  qed
qed (simp_all add: latched_def connected_def on_op_def on_op_content_def on_signal_def
      on_nack_def on_disconnect_def submitSignal_def split: option.splits)

lemma latched_run: "latched s \<Longrightarrow> latched (run P es s)"
  unfolding run_def by (induction es arbitrary: s) (simp_all add: latched_step)


text \<open>
  The success path: the callback of \<^verbatim>\<open>fetchMissingDeltas\<close> resets the flag and then calls
  \<^verbatim>\<open>catchUp\<close>, which may start the next fetch but cannot leave the manager latched.
\<close>

lemma unlatched_enqueueMessage:
  assumes "fetching s \<longrightarrow> catchUpCalls s \<noteq> []"
  shows "fetching (enqueueMessage m s) \<longrightarrow> catchUpCalls (enqueueMessage m s) \<noteq> []"
proof (cases "fetching s")
  case True
  then show ?thesis using assms by simp
next
  case False
  then show ?thesis
    by (simp add: enqueueMessage_def handleOutOfOrderMessage_def fetchMissingDeltas_def
        getDeltas_def observe_def catchUpCalls_def newCall_def Let_def split: option.splits)
qed

lemma unlatched_enqueueMessages:
  "fetching s \<longrightarrow> catchUpCalls s \<noteq> [] \<Longrightarrow>
   fetching (enqueueMessages ms s) \<longrightarrow> catchUpCalls (enqueueMessages ms s) \<noteq> []"
  unfolding enqueueMessages_def
  by (induction ms arbitrary: s) (simp_all add: unlatched_enqueueMessage)

lemma unlatched_catchUp:
  assumes "fetching s \<longrightarrow> catchUpCalls s \<noteq> []"
  shows "\<not> latched (catchUp r ms s)"
proof -
  let ?s1 = "enqueueMessages ms (observe (LogCatchUp (length ms) (length (pending s)) r) s)"
  have "fetching ?s1 \<longrightarrow> catchUpCalls ?s1 \<noteq> []"
    using assms by (intro unlatched_enqueueMessages) simp
  then have "fetching (?s1\<lparr>pending := []\<rparr>) \<longrightarrow> catchUpCalls (?s1\<lparr>pending := []\<rparr>) \<noteq> []"
    by simp
  then show ?thesis
    unfolding catchUp_def Let_def latched_def
    using unlatched_enqueueMessages by blast
qed

lemma success_resets:
  assumes "i < length (getDeltasCalls s)" "\<not> returnedAtEntry (getDeltasCalls s ! i)"
    and "purpose (getDeltasCalls s ! i) = ForCatchUp r"
    and "getDeltas_round a (getDeltasCalls s ! i) = (Returns ms, fx)"
  shows "storageAnswer P i a s
           = catchUp r ms (s\<lparr>getDeltasCalls := removeAt i (getDeltasCalls s),
                              trace := trace s @ fx, fetching := False\<rparr>)"
  using assms by (simp add: storageAnswer_def getDeltas_resolved_def Let_def)

lemma empty_resets:
  assumes "i < length (getDeltasCalls s)" "returnedAtEntry (getDeltasCalls s ! i)"
    and "purpose (getDeltasCalls s ! i) = ForCatchUp r"
  shows "emptyResultDelivered P i s
           = catchUp r [] (s\<lparr>getDeltasCalls := removeAt i (getDeltasCalls s), fetching := False\<rparr>)"
  using assms by (simp add: emptyResultDelivered_def getDeltas_resolved_def)

text \<open>
  C10 (gap-fill error latch).
  \<^item> \<^verbatim>\<open>fetchMissingDeltas\<close>, when no fetch is under way, sets \<^verbatim>\<open>fetching\<close> and calls
    \<^verbatim>\<open>getDeltas\<close>.
  \<^item> The success path resets the flag: when the call returns (storage answers and the
    loop returns, or the empty result of a call on a closed manager is delivered), the
    callback sets \<^verbatim>\<open>fetching\<close> to \<^verbatim>\<open>false\<close> and then runs \<^verbatim>\<open>catchUp\<close> on the messages; the
    manager is not latched afterwards (if \<^verbatim>\<open>fetching\<close> is set again, \<^verbatim>\<open>catchUp\<close> has started
    a new fetch).
  \<^item> Only the success path resets the flag: if an event finds \<^verbatim>\<open>fetching\<close> set and leaves
    it reset, the event is the resolution of a call made by \<^verbatim>\<open>fetchMissingDeltas\<close>.
  \<^item> When awaiting the delta storage raises in such a call, the call is gone and nothing
    else changes: \<^verbatim>\<open>fetching\<close> stays set.
  \<^item> If that call was the only one of its kind, the manager is latched; and a latched
    manager stays latched whatever events follow: \<^verbatim>\<open>fetching\<close> is set, no call for
    catching up is in flight, and every call of \<^verbatim>\<open>fetchMissingDeltas\<close> only logs that a
    fetch is under way and returns.
\<close>

theorem gap_fill_error_latch:
  "(\<not> fetching s \<longrightarrow>
      fetching (fetchMissingDeltas r f t s)
    \<and> getDeltasCalls (fetchMissingDeltas r f t s)
        = getDeltasCalls s @ [newCall (ForCatchUp r) f t (closed s)])
   \<and> (i < length (getDeltasCalls s) \<and> \<not> returnedAtEntry (getDeltasCalls s ! i)
        \<and> purpose (getDeltasCalls s ! i) = ForCatchUp r
        \<and> getDeltas_round a (getDeltasCalls s ! i) = (Returns ms, fx) \<longrightarrow>
        storageAnswer P i a s
          = catchUp r ms (s\<lparr>getDeltasCalls := removeAt i (getDeltasCalls s),
                             trace := trace s @ fx, fetching := False\<rparr>)
      \<and> \<not> latched (storageAnswer P i a s))
   \<and> (i < length (getDeltasCalls s) \<and> returnedAtEntry (getDeltasCalls s ! i)
        \<and> purpose (getDeltasCalls s ! i) = ForCatchUp r \<longrightarrow>
        emptyResultDelivered P i s
          = catchUp r [] (s\<lparr>getDeltasCalls := removeAt i (getDeltasCalls s),
                             fetching := False\<rparr>)
      \<and> \<not> latched (emptyResultDelivered P i s))
   \<and> (fetching s \<and> \<not> fetching (step P e s) \<longrightarrow>
        (\<exists>i < length (getDeltasCalls s). forCatchUp (purpose (getDeltasCalls s ! i))
           \<and> (e = EmptyResultDelivered i
              \<or> (\<exists>a ms es. e = StorageAnswer i a
                    \<and> getDeltas_round a (getDeltasCalls s ! i) = (Returns ms, es)))))
   \<and> (i < length (getDeltasCalls s) \<and> \<not> returnedAtEntry (getDeltasCalls s ! i)
        \<and> forCatchUp (purpose (getDeltasCalls s ! i)) \<longrightarrow>
        storageAnswer P i DeltaStorageRejects s
          = s\<lparr>getDeltasCalls := removeAt i (getDeltasCalls s)\<rparr>)
   \<and> (fetching s \<and> i < length (getDeltasCalls s) \<and> \<not> returnedAtEntry (getDeltasCalls s ! i)
        \<and> catchUpCalls s = [getDeltasCalls s ! i] \<longrightarrow>
        latched (storageAnswer P i DeltaStorageRejects s))
   \<and> (latched s \<longrightarrow>
        latched (run P es s) \<and> fetching (run P es s) \<and> catchUpCalls (run P es s) = []
      \<and> fetchMissingDeltas r f t (run P es s) = observe (LogAlreadyFetching f r) (run P es s))"
proof -
  have 1: "\<not> fetching s \<Longrightarrow>
      fetching (fetchMissingDeltas r f t s)
    \<and> getDeltasCalls (fetchMissingDeltas r f t s)
        = getDeltasCalls s @ [newCall (ForCatchUp r) f t (closed s)]"
    by (simp add: fetchMissingDeltas_def getDeltas_def observe_def)
  have 2: "fetching s \<and> \<not> fetching (step P e s) \<Longrightarrow>
        (\<exists>i < length (getDeltasCalls s). forCatchUp (purpose (getDeltasCalls s ! i))
           \<and> (e = EmptyResultDelivered i
              \<or> (\<exists>a ms es. e = StorageAnswer i a
                    \<and> getDeltas_round a (getDeltasCalls s ! i) = (Returns ms, es))))"
    using step_keeps_fetching by blast
  have 3: "i < length (getDeltasCalls s) \<and> \<not> returnedAtEntry (getDeltasCalls s ! i)
        \<and> forCatchUp (purpose (getDeltasCalls s ! i)) \<Longrightarrow>
        storageAnswer P i DeltaStorageRejects s
          = s\<lparr>getDeltasCalls := removeAt i (getDeltasCalls s)\<rparr>"
    by (cases "purpose (getDeltasCalls s ! i)")
       (simp_all add: storageAnswer_def getDeltas_round_def getDeltas_rejected_def Let_def)
  have 4: "fetching s \<and> i < length (getDeltasCalls s) \<and> \<not> returnedAtEntry (getDeltasCalls s ! i)
        \<and> catchUpCalls s = [getDeltasCalls s ! i] \<Longrightarrow>
        latched (storageAnswer P i DeltaStorageRejects s)"
  proof -
    assume a: "fetching s \<and> i < length (getDeltasCalls s)
        \<and> \<not> returnedAtEntry (getDeltasCalls s ! i) \<and> catchUpCalls s = [getDeltasCalls s ! i]"
    then have "getDeltasCalls s ! i \<in> set (catchUpCalls s)" by simp
    then have "forCatchUp (purpose (getDeltasCalls s ! i))" by (simp add: catchUpCalls_def)
    with a 3 have "storageAnswer P i DeltaStorageRejects s
          = s\<lparr>getDeltasCalls := removeAt i (getDeltasCalls s)\<rparr>" by simp
    moreover have "filter (\<lambda>c. forCatchUp (purpose c)) (removeAt i (getDeltasCalls s)) = []"
      using a by (intro filter_removeAt_only) (simp_all add: catchUpCalls_def)
    ultimately show ?thesis using a by (simp add: latched_def catchUpCalls_def)
  qed
  have 5: "latched s \<Longrightarrow>
        latched (run P es s) \<and> fetching (run P es s) \<and> catchUpCalls (run P es s) = []
      \<and> fetchMissingDeltas r f t (run P es s) = observe (LogAlreadyFetching f r) (run P es s)"
    using latched_run [of s P es] by (simp add: latched_def fetchMissingDeltas_def)
  have 6: "i < length (getDeltasCalls s) \<and> \<not> returnedAtEntry (getDeltasCalls s ! i)
        \<and> purpose (getDeltasCalls s ! i) = ForCatchUp r
        \<and> getDeltas_round a (getDeltasCalls s ! i) = (Returns ms, fx) \<Longrightarrow>
        storageAnswer P i a s
          = catchUp r ms (s\<lparr>getDeltasCalls := removeAt i (getDeltasCalls s),
                             trace := trace s @ fx, fetching := False\<rparr>)
      \<and> \<not> latched (storageAnswer P i a s)"
  proof -
    assume a: "i < length (getDeltasCalls s) \<and> \<not> returnedAtEntry (getDeltasCalls s ! i)
        \<and> purpose (getDeltasCalls s ! i) = ForCatchUp r
        \<and> getDeltas_round a (getDeltasCalls s ! i) = (Returns ms, fx)"
    then have e: "storageAnswer P i a s
          = catchUp r ms (s\<lparr>getDeltasCalls := removeAt i (getDeltasCalls s),
                             trace := trace s @ fx, fetching := False\<rparr>)"
      by (intro success_resets) simp_all
    show ?thesis unfolding e by (simp add: unlatched_catchUp)
  qed
  have 7: "i < length (getDeltasCalls s) \<and> returnedAtEntry (getDeltasCalls s ! i)
        \<and> purpose (getDeltasCalls s ! i) = ForCatchUp r \<Longrightarrow>
        emptyResultDelivered P i s
          = catchUp r [] (s\<lparr>getDeltasCalls := removeAt i (getDeltasCalls s),
                             fetching := False\<rparr>)
      \<and> \<not> latched (emptyResultDelivered P i s)"
  proof -
    assume a: "i < length (getDeltasCalls s) \<and> returnedAtEntry (getDeltasCalls s ! i)
        \<and> purpose (getDeltasCalls s ! i) = ForCatchUp r"
    then have e: "emptyResultDelivered P i s
          = catchUp r [] (s\<lparr>getDeltasCalls := removeAt i (getDeltasCalls s),
                             fetching := False\<rparr>)"
      by (intro empty_resets) simp_all
    show ?thesis unfolding e by (simp add: unlatched_catchUp)
  qed
  show ?thesis using 1 2 3 4 5 6 7 by blast
qed

theorem gap_fill_error_latch_witness:
  "fetching gapOpen \<and> catchUpCalls gapOpen = [getDeltasCalls gapOpen ! 0]
   \<and> \<not> fetching (storageAnswer JSON_sample 0
          (GetReturns [sequenced 1 Operation Null, sequenced 2 Operation Null]) gapOpen)
   \<and> map sequenceNumber (items (inbound (storageAnswer JSON_sample 0
          (GetReturns [sequenced 1 Operation Null, sequenced 2 Operation Null]) gapOpen)))
       = [1, 2, 3]
   \<and> fetching (run JSON_sample afterRejection gapOpen)
   \<and> getDeltasCalls (run JSON_sample afterRejection gapOpen) = []
   \<and> map sequenceNumber (pending (run JSON_sample afterRejection gapOpen)) = [3, 5, 7]
   \<and> storageRequests (trace (run JSON_sample afterRejection gapOpen)) = []
   \<and> processedMessages (trace (run JSON_sample afterRejection gapOpen))
       = [sequenced 1 Operation Null]"
proof -
  let ?rej = "storageAnswer JSON_sample 0 DeltaStorageRejects gapOpen"
  let ?ms = "[sequenced 1 Operation Null, sequenced 2 Operation Null]"
  let ?ok = "storageAnswer JSON_sample 0 (GetReturns ?ms) gapOpen"
  have g: "fetching gapOpen" "0 < length (getDeltasCalls gapOpen)"
    "\<not> returnedAtEntry (getDeltasCalls gapOpen ! 0)"
    "catchUpCalls gapOpen = [getDeltasCalls gapOpen ! 0]"
    by (simp_all add: gapOpen_def catchUpCalls_def model_defs)
  have p: "purpose (getDeltasCalls gapOpen ! 0) = ForCatchUp ''HandleOutOfOrderMessage''"
    "getDeltas_round (GetReturns ?ms) (getDeltasCalls gapOpen ! 0)
       = (Returns ?ms, [StorageGet 0 3, LogGetDeltasEnd 2 2 0])"
    by (simp_all add: gapOpen_def model_defs round_defs)
  have u: "\<not> latched ?ok"
    using gap_fill_error_latch [where s = gapOpen and i = 0 and a = "GetReturns ?ms"
        and r = "''HandleOutOfOrderMessage''" and ms = ?ms
        and fx = "[StorageGet 0 3, LogGetDeltasEnd 2 2 0]" and P = JSON_sample] g p
    by blast
  have o: "catchUpCalls ?ok = []" "map sequenceNumber (items (inbound ?ok)) = [1, 2, 3]"
    by (simp_all add: gapOpen_def catchUpCalls_def model_defs round_defs)
  have nf: "\<not> fetching ?ok" using u o(1) by (simp add: latched_def)
  have l: "latched ?rej"
    using gap_fill_error_latch [where s = gapOpen and i = 0 and P = JSON_sample] g by blast
  have r: "run JSON_sample afterRejection gapOpen = run JSON_sample (tl afterRejection) ?rej"
    by (simp add: afterRejection_def run_def)
  have f: "fetching (run JSON_sample afterRejection gapOpen)"
    using gap_fill_error_latch [where s = ?rej and P = JSON_sample and es = "tl afterRejection"]
      l r
    by simp
  have e: "getDeltasCalls (run JSON_sample afterRejection gapOpen) = []"
    "map sequenceNumber (pending (run JSON_sample afterRejection gapOpen)) = [3, 5, 7]"
    "storageRequests (trace (run JSON_sample afterRejection gapOpen)) = []"
    "processedMessages (trace (run JSON_sample afterRejection gapOpen))
       = [sequenced 1 Operation Null]"
    by (simp_all add: afterRejection_def gapOpen_def model_defs round_defs)
  show ?thesis using g nf o f e by simp
qed

end
